theory Spec2Isabelle
  imports Main
begin

section \<open>Values, errors and text helpers\<close>

text \<open>
  Python values that travel through configurations, contexts and HTTP bodies are
  modelled as JSON-like values. Floating point numbers are not part of the model.
  A nested dictionary keeps its insertion order, as a Python \<open>dict\<close> does.
  Strings are lists of characters read as code points below 256.
\<close>

datatype jvalue =
    JNull
  | JBool bool
  | JInt int
  | JStr string
  | JList "jvalue list"
  | JDict "(string \<times> jvalue) list"

type_synonym pydict = "(string \<times> jvalue) list"

text \<open>The run context is a dictionary with string keys; only lookups, key updates
  and merges are performed on it, so it is a finite map.\<close>

type_synonym ctx = "string \<rightharpoonup> jvalue"

text \<open>Every exception class the code raises or catches is a constructor; the
  argument is the text that \<open>str(e)\<close> yields (for \<open>KeyError\<close>: the missing key).\<close>

datatype error =
    NotFoundError string
  | AlreadyExistsError string
  | ValueError string
  | ValidationError string
  | TypeError string
  | KeyError string
  | IndexError string
  | AttributeError string
  | TransportError string

definition squote :: "string \<Rightarrow> string" where
  "squote s = [CHR 0x27] @ s @ [CHR 0x27]"

text \<open>The decimal digit for a number below ten.\<close>

definition digit_char :: "nat \<Rightarrow> char" where
  "digit_char d = ''0123456789'' ! (d mod 10)"

fun nat_digits :: "nat \<Rightarrow> string" where
  "nat_digits n = (if n < 10 then [digit_char n] else nat_digits (n div 10) @ [digit_char (n mod 10)])"

declare nat_digits.simps [simp del]

definition int_digits :: "int \<Rightarrow> string" where
  "int_digits i = (if i < 0 then CHR ''-'' # nat_digits (nat (- i)) else nat_digits (nat i))"

text \<open>
  The text of a pydantic \<open>ValidationError\<close>: a count line, then for every failed check
  its location (omitted for a model-level check) and its message. The bracketed
  suffix with the input value and the documentation link that pydantic appends to
  each message are left out.
\<close>

definition pydantic_text :: "string \<Rightarrow> (string \<times> string) list \<Rightarrow> string" where
  "pydantic_text model errs =
     nat_digits (length errs) @ '' validation error'' @ (if length errs = 1 then [] else ''s'')
       @ '' for '' @ model
       @ concat (map (\<lambda>(loc, msg). (if loc = [] then [] else CHR 0x0A # loc) @ [CHR 0x0A] @ ''  '' @ msg) errs)"

fun str_e :: "error \<Rightarrow> string" where
  "str_e (NotFoundError m) = m"
| "str_e (AlreadyExistsError m) = m"
| "str_e (ValueError m) = m"
| "str_e (ValidationError m) = m"
| "str_e (TypeError m) = m"
| "str_e (KeyError k) = squote k"
| "str_e (IndexError m) = m"
| "str_e (AttributeError m) = m"
| "str_e (TransportError m) = m"

section \<open>Workflow definitions (models/workflow.py)\<close>

datatype WorkflowStatus = ACTIVE | PAUSED | DISABLED

datatype StepType = DELAY | WEBHOOK

text \<open>Record fields carry a prefix naming their class, since several classes of the
  source share field names (\<open>id\<close>, \<open>status\<close>, \<open>steps\<close>, \<open>error\<close>).\<close>

record StepDefinition =
  sd_id :: string
  sd_type :: StepType
  sd_config :: pydict
  sd_next_step_id :: "string option"

record WorkflowDefinition =
  wf_id :: string
  wf_name :: string
  wf_description :: "string option"
  wf_entry_point :: string
  wf_steps :: "StepDefinition list"
  wf_status :: WorkflowStatus
  wf_created_at :: nat
  wf_updated_at :: nat

text \<open>\<open>validate_steps\<close>: the list of ids and the set built from it must have the same size.\<close>

definition validate_steps :: "StepDefinition list \<Rightarrow> error + StepDefinition list" where
  "validate_steps steps =
     (let step_ids = map sd_id steps in
      if length step_ids \<noteq> length (remdups step_ids)
      then Inl (ValueError ''Step IDs must be unique within a workflow'')
      else Inr steps)"

text \<open>\<open>validate_entry_point\<close>: the entry point, then every \<open>next_step_id\<close> in list order.\<close>

definition validate_entry_point :: "WorkflowDefinition \<Rightarrow> error + WorkflowDefinition" where
  "validate_entry_point w =
     (let step_ids = set (map sd_id (wf_steps w)) in
      if wf_entry_point w \<notin> step_ids
      then Inl (ValueError (''entry_point '' @ squote (wf_entry_point w) @ '' must be a valid step ID''))
      else (case find (\<lambda>step. case sd_next_step_id step of None \<Rightarrow> False | Some n \<Rightarrow> n \<notin> step_ids)
                      (wf_steps w) of
              Some step \<Rightarrow>
                Inl (ValueError (''next_step_id '' @ squote (the (sd_next_step_id step)) @ '' in step ''
                                   @ squote (sd_id step) @ '' is not a valid step ID''))
            | None \<Rightarrow> Inr w))"

text \<open>
  Construction of a \<open>WorkflowDefinition\<close> from field values of the right types: pydantic
  runs the field validator of \<open>steps\<close>, then (only when no field failed) the model
  validator, and wraps a raised \<open>ValueError\<close> into its \<open>ValidationError\<close>.
\<close>

definition WorkflowDefinition_init :: "WorkflowDefinition \<Rightarrow> error + WorkflowDefinition" where
  "WorkflowDefinition_init w =
     (case validate_steps (wf_steps w) of
        Inl e \<Rightarrow> Inl (ValidationError (pydantic_text ''WorkflowDefinition''
                                         [(''steps'', ''Value error, '' @ str_e e)]))
      | Inr _ \<Rightarrow>
         (case validate_entry_point w of
            Inl e \<Rightarrow> Inl (ValidationError (pydantic_text ''WorkflowDefinition''
                                             [([], ''Value error, '' @ str_e e)]))
          | Inr w' \<Rightarrow> Inr w'))"


section \<open>Storage (storage/filesystem.py)\<close>

text \<open>
  A storage directory is a finite map from the file stem (the entity id) to the stored
  document. Writing \<open>model_dump_json\<close> and reading it back with \<open>model_validate_json\<close>
  is the function \<open>dump_load\<close> of the model class: it yields the record that a reader
  of the file obtains. \<open>entity_key\<close> is
  \<open>getattr(entity, 'id', None) or getattr(entity, 'run_id', None)\<close>, empty when both
  are absent or empty. Ids are taken to be usable as file stems.
\<close>

record 'e model_class =
  class_name :: string
  entity_key :: "'e \<Rightarrow> string"
  dump_load :: "'e \<Rightarrow> 'e"

record 'e FilesystemStorage =
  model_cls :: "'e model_class"
  files :: "string \<rightharpoonup> 'e"

definition storage_create :: "'e FilesystemStorage \<Rightarrow> 'e \<Rightarrow> (error + 'e) \<times> 'e FilesystemStorage" where
  "storage_create st entity =
     (let entity_id = entity_key (model_cls st) entity in
      if entity_id = [] then (Inl (ValueError ''Entity must have an 'id' or 'run_id' attribute.''), st)
      else if files st entity_id \<noteq> None
      then (Inl (AlreadyExistsError (class_name (model_cls st) @ '' with ID '' @ entity_id @ '' already exists.'')), st)
      else (Inr entity, st\<lparr>files := (files st)(entity_id \<mapsto> dump_load (model_cls st) entity)\<rparr>))"

definition storage_get :: "'e FilesystemStorage \<Rightarrow> string \<Rightarrow> error + 'e" where
  "storage_get st ident =
     (case files st ident of
        None \<Rightarrow> Inl (NotFoundError (class_name (model_cls st) @ '' with ID '' @ ident @ '' not found.''))
      | Some doc \<Rightarrow> Inr doc)"

definition storage_update :: "'e FilesystemStorage \<Rightarrow> 'e \<Rightarrow> (error + 'e) \<times> 'e FilesystemStorage" where
  "storage_update st entity =
     (let entity_id = entity_key (model_cls st) entity in
      if entity_id = [] then (Inl (ValueError ''Entity must have an 'id' or 'run_id' attribute.''), st)
      else if files st entity_id = None
      then (Inl (NotFoundError (class_name (model_cls st) @ '' with ID '' @ entity_id @ '' not found.'')), st)
      else (Inr entity, st\<lparr>files := (files st)(entity_id \<mapsto> dump_load (model_cls st) entity)\<rparr>))"

definition WorkflowDefinition_class :: "WorkflowDefinition model_class" where
  "WorkflowDefinition_class =
     \<lparr>class_name = ''WorkflowDefinition'', entity_key = wf_id, dump_load = (\<lambda>w. w)\<rparr>"

definition for_workflows :: "WorkflowDefinition FilesystemStorage" where
  "for_workflows = \<lparr>model_cls = WorkflowDefinition_class, files = Map.empty\<rparr>"


section \<open>Runs (models/run.py)\<close>

datatype RunStatus = PENDING | RUNNING | COMPLETED | FAILED | PAUSED

datatype StepStatus = PENDING | RUNNING | COMPLETED | FAILED | SKIPPED

text \<open>
  A step's \<open>output\<close> holds a reference to a dictionary object. The Delay connector
  returns the very object it was given, which is the run's \<open>context\<close>; the engine stores
  that object as the step's output, so a later in-place update of the context is
  visible through it. \<open>ContextObject\<close> is that shared object, \<open>DictObject d\<close> a
  separate dictionary with contents \<open>d\<close>.
\<close>

datatype dict_ref = ContextObject | DictObject ctx

fun deref :: "ctx \<Rightarrow> dict_ref \<Rightarrow> ctx" where
  "deref c ContextObject = c"
| "deref c (DictObject d) = d"

record StepRun =
  sr_step_id :: string
  sr_status :: StepStatus
  sr_start_time :: "nat option"
  sr_end_time :: "nat option"
  sr_error :: "string option"
  sr_output :: "dict_ref option"

record WorkflowRun =
  run_id :: string
  run_workflow_id :: string
  run_status :: RunStatus
  run_created_at :: nat
  run_started_at :: "nat option"
  run_completed_at :: "nat option"
  run_context :: ctx
  run_steps :: "string \<rightharpoonup> StepRun"
  run_current_step_id :: "string option"
  run_error :: "string option"

definition StepRun_new :: "string \<Rightarrow> StepRun" where
  "StepRun_new step_id =
     \<lparr>sr_step_id = step_id, sr_status = StepStatus.PENDING, sr_start_time = None,
      sr_end_time = None, sr_error = None, sr_output = None\<rparr>"

definition WorkflowRun_new :: "string \<Rightarrow> string \<Rightarrow> RunStatus \<Rightarrow> nat \<Rightarrow> WorkflowRun" where
  "WorkflowRun_new rid wid st t =
     \<lparr>run_id = rid, run_workflow_id = wid, run_status = st, run_created_at = t,
      run_started_at = None, run_completed_at = None, run_context = Map.empty,
      run_steps = Map.empty, run_current_step_id = None, run_error = None\<rparr>"

text \<open>The methods read the clock; the reading is the argument \<open>t\<close> (one reading per call).\<close>

definition add_step :: "string \<Rightarrow> WorkflowRun \<Rightarrow> WorkflowRun" where
  "add_step step_id run =
     (if run_steps run step_id = None
      then run\<lparr>run_steps := (run_steps run)(step_id \<mapsto> StepRun_new step_id)\<rparr>
      else run)"

definition start_step :: "nat \<Rightarrow> string \<Rightarrow> WorkflowRun \<Rightarrow> WorkflowRun" where
  "start_step t step_id run =
     (let run1 = (if run_steps run step_id = None then add_step step_id run else run);
          run2 = (case run_steps run1 step_id of
                    None \<Rightarrow> run1
                  | Some sr \<Rightarrow> run1\<lparr>run_steps := (run_steps run1)(step_id \<mapsto>
                        sr\<lparr>sr_status := StepStatus.RUNNING, sr_start_time := Some t\<rparr>)\<rparr>)
      in if run_status run2 = RunStatus.PENDING
         then run2\<lparr>run_status := RunStatus.RUNNING, run_started_at := Some t\<rparr>
         else run2)"

text \<open>\<open>output or {}\<close>: a missing or empty output is replaced by a new empty dictionary.\<close>

definition output_or_empty :: "ctx \<Rightarrow> dict_ref option \<Rightarrow> dict_ref" where
  "output_or_empty c output =
     (case output of
        None \<Rightarrow> DictObject Map.empty
      | Some r \<Rightarrow> if deref c r = Map.empty then DictObject Map.empty else r)"

definition complete_step :: "nat \<Rightarrow> string \<Rightarrow> dict_ref option \<Rightarrow> WorkflowRun \<Rightarrow> WorkflowRun" where
  "complete_step t step_id output run =
     (case run_steps run step_id of
        None \<Rightarrow> run
      | Some sr \<Rightarrow> run\<lparr>run_steps := (run_steps run)(step_id \<mapsto>
            sr\<lparr>sr_status := StepStatus.COMPLETED, sr_end_time := Some t,
               sr_output := Some (output_or_empty (run_context run) output)\<rparr>)\<rparr>)"

definition fail_step :: "nat \<Rightarrow> string \<Rightarrow> string \<Rightarrow> WorkflowRun \<Rightarrow> WorkflowRun" where
  "fail_step t step_id err run =
     (case run_steps run step_id of
        None \<Rightarrow> run
      | Some sr \<Rightarrow> run\<lparr>run_steps := (run_steps run)(step_id \<mapsto>
            sr\<lparr>sr_status := StepStatus.FAILED, sr_end_time := Some t, sr_error := Some err\<rparr>),
          run_status := RunStatus.FAILED, run_completed_at := Some t, run_error := Some err\<rparr>)"

text \<open>
  \<open>run.update_context(**output)\<close>: the dictionary is unpacked into keyword arguments of
  \<open>def update_context(self, **updates)\<close>. A key \<open>self\<close> collides with the
  parameter that the bound method already fills, and the call raises \<open>TypeError\<close>
  before the body runs. Otherwise the body merges the updates into the context in place.
\<close>

definition update_context :: "ctx \<Rightarrow> WorkflowRun \<Rightarrow> error + WorkflowRun" where
  "update_context updates run =
     (if updates ''self'' \<noteq> None
      then Inl (TypeError (''WorkflowRun.update_context() got multiple values for argument '' @ squote ''self''))
      else Inr (run\<lparr>run_context := run_context run ++ updates\<rparr>))"

text \<open>What a reader of the stored document obtains: every output is a dictionary of
  its own, with the contents the referenced object had when the run was written.\<close>

definition WorkflowRun_dump_load :: "WorkflowRun \<Rightarrow> WorkflowRun" where
  "WorkflowRun_dump_load run =
     run\<lparr>run_steps := (\<lambda>k. map_option
        (\<lambda>sr. sr\<lparr>sr_output := map_option (\<lambda>r. DictObject (deref (run_context run) r)) (sr_output sr)\<rparr>)
        (run_steps run k))\<rparr>"

definition WorkflowRun_class :: "WorkflowRun model_class" where
  "WorkflowRun_class =
     \<lparr>class_name = ''WorkflowRun'', entity_key = run_id, dump_load = WorkflowRun_dump_load\<rparr>"

definition for_runs :: "WorkflowRun FilesystemStorage" where
  "for_runs = \<lparr>model_cls = WorkflowRun_class, files = Map.empty\<rparr>"

section \<open>Python text conversions used by the connectors\<close>

text \<open>\<open>repr\<close> of a string: double quotes are chosen only when the string contains a
  single quote and no double quote; the quote, the backslash and the characters that
  are not printable are escaped.\<close>

definition hex_digit :: "nat \<Rightarrow> char" where
  "hex_digit d = ''0123456789abcdef'' ! (d mod 16)"

definition py_printable :: "char \<Rightarrow> bool" where
  "py_printable c = (let n = (of_char c :: nat) in (32 \<le> n \<and> n < 127) \<or> (161 \<le> n \<and> n \<noteq> 173))"

definition repr_char :: "char \<Rightarrow> char \<Rightarrow> string" where
  "repr_char q c =
     (if c = q \<or> c = CHR 0x5C then [CHR 0x5C, c]
      else if c = CHR 0x09 then [CHR 0x5C, CHR ''t'']
      else if c = CHR 0x0A then [CHR 0x5C, CHR ''n'']
      else if c = CHR 0x0D then [CHR 0x5C, CHR ''r'']
      else if py_printable c then [c]
      else [CHR 0x5C, CHR ''x'', hex_digit (of_char c div 16), hex_digit (of_char c mod 16)])"

definition py_repr_str :: "string \<Rightarrow> string" where
  "py_repr_str s =
     (let q = (if CHR 0x27 \<in> set s \<and> CHR 0x22 \<notin> set s then CHR 0x22 else CHR 0x27)
      in q # concat (map (repr_char q) s) @ [q])"

fun py_join :: "string \<Rightarrow> string list \<Rightarrow> string" where
  "py_join sep [] = []"
| "py_join sep [x] = x"
| "py_join sep (x # y # ys) = x @ sep @ py_join sep (y # ys)"

fun py_repr :: "jvalue \<Rightarrow> string" where
  "py_repr JNull = ''None''"
| "py_repr (JBool b) = (if b then ''True'' else ''False'')"
| "py_repr (JInt i) = int_digits i"
| "py_repr (JStr s) = py_repr_str s"
| "py_repr (JList vs) = ''['' @ py_join '', '' (map py_repr vs) @ '']''"
| "py_repr (JDict kvs) =
     ''{'' @ py_join '', '' (map (\<lambda>kv. py_repr_str (fst kv) @ '': '' @ py_repr (snd kv)) kvs) @ ''}''"

definition py_str :: "jvalue \<Rightarrow> string" where
  "py_str v = (case v of JStr s \<Rightarrow> s | _ \<Rightarrow> py_repr v)"

text \<open>\<open>str.upper\<close> on ASCII letters; other characters are left as they are.\<close>

definition py_upper :: "string \<Rightarrow> string" where
  "py_upper s = map (\<lambda>c. if 97 \<le> (of_char c :: nat) \<and> (of_char c :: nat) \<le> 122
                          then char_of ((of_char c :: nat) - 32) else c) s"

text \<open>\<open>sub in s\<close> for strings.\<close>

fun py_contains :: "string \<Rightarrow> string \<Rightarrow> bool" where
  "py_contains sub [] = (sub = [])"
| "py_contains sub (c # cs) = (take (length sub) (c # cs) = sub \<or> py_contains sub cs)"

section \<open>The environment\<close>

record http_request =
  req_method :: string
  req_url :: string
  req_headers :: "(string \<times> string) list"
  req_json :: "jvalue option"

text \<open>A received response: \<open>resp_headers\<close> is \<open>dict(response.headers)\<close> (lower-case
  names), \<open>resp_json\<close> is what \<open>response.json()\<close> returns or raises.\<close>

record http_response =
  resp_status_code :: int
  resp_headers :: "(string \<times> string) list"
  resp_text :: string
  resp_json :: "error + jvalue"

text \<open>
  What the code obtains from outside the repository is a parameter of the model:
  \<^item> \<open>clock k\<close>: the clock reading during the \<open>k\<close>-th loop iteration (after the
    loop: for the count reached);
  \<^item> \<open>send k req\<close>: the outcome of the HTTP call made in iteration \<open>k\<close> (an exception
    of the client, or a response);
  \<^item> \<open>status_error req resp\<close>: the text of the error \<open>raise_for_status\<close> raises;
  \<^item> \<open>str_as_int\<close>: pydantic's conversion of a string to an integer field;
  \<^item> \<open>url_error\<close>: the text of the \<open>ValueError\<close> that the URL validator raises
    (\<open>urlparse\<close> fails, or scheme or host is empty), \<open>None\<close> when the URL passes;
  \<^item> \<open>format_other\<close>: \<open>str.format\<close> on templates with replacement fields that use
    attribute or index access, a conversion or a format specification.
\<close>

record env =
  clock :: "nat \<Rightarrow> nat"
  send :: "nat \<Rightarrow> http_request \<Rightarrow> error + http_response"
  status_error :: "http_request \<Rightarrow> http_response \<Rightarrow> string"
  str_as_int :: "string \<Rightarrow> int option"
  url_error :: "string \<Rightarrow> string option"
  format_other :: "string \<Rightarrow> ctx \<Rightarrow> error + string"

section \<open>Connector configurations (connectors/base.py, delay.py, webhook.py)\<close>

text \<open>
  The configuration classes are pydantic models with \<open>extra='forbid'\<close> and the
  inherited field \<open>type: str\<close>. A model is built from the raw config map by keyword
  arguments; every failed check is collected, fields in declaration order first, then
  the keys that are no field.
\<close>

definition pyd_int :: "env \<Rightarrow> jvalue \<Rightarrow> int option" where
  "pyd_int ev v =
     (case v of JInt n \<Rightarrow> Some n
      | JBool b \<Rightarrow> Some (if b then 1 else 0)
      | JStr s \<Rightarrow> str_as_int ev s
      | _ \<Rightarrow> None)"

definition extra_errors :: "string list \<Rightarrow> pydict \<Rightarrow> (string \<times> string) list" where
  "extra_errors names cfg =
     map (\<lambda>k. (k, ''Extra inputs are not permitted'')) (filter (\<lambda>k. k \<notin> set names) (map fst cfg))"

definition type_field :: "string \<Rightarrow> pydict \<Rightarrow> (string \<times> string) list + string" where
  "type_field dflt cfg =
     (case map_of cfg ''type'' of
        None \<Rightarrow> Inr dflt
      | Some (JStr s) \<Rightarrow> Inr s
      | Some _ \<Rightarrow> Inl [(''type'', ''Input should be a valid string'')])"

definition errors_of :: "('e list + 'a) \<Rightarrow> 'e list" where
  "errors_of r = (case r of Inl es \<Rightarrow> es | Inr _ \<Rightarrow> [])"

record DelayConfig =
  dc_type :: string
  dc_seconds :: int

definition seconds_field :: "env \<Rightarrow> pydict \<Rightarrow> (string \<times> string) list + int" where
  "seconds_field ev cfg =
     (case map_of cfg ''seconds'' of
        None \<Rightarrow> Inl [(''seconds'', ''Field required'')]
      | Some v \<Rightarrow>
          (case pyd_int ev v of
             None \<Rightarrow> Inl [(''seconds'', ''Input should be a valid integer'')]
           | Some n \<Rightarrow> if 0 < n then Inr n else Inl [(''seconds'', ''Input should be greater than 0'')]))"

definition DelayConfig_init :: "env \<Rightarrow> pydict \<Rightarrow> error + DelayConfig" where
  "DelayConfig_init ev cfg =
     (case (type_field ''delay'' cfg, seconds_field ev cfg, extra_errors [''type'', ''seconds''] cfg) of
        (Inr ty, Inr secs, []) \<Rightarrow> Inr \<lparr>dc_type = ty, dc_seconds = secs\<rparr>
      | (ty, secs, extras) \<Rightarrow>
          Inl (ValidationError (pydantic_text ''DelayConfig'' (errors_of ty @ errors_of secs @ extras))))"

record WebhookConfig =
  wc_type :: string
  wc_url :: string
  wc_method :: string
  wc_headers :: "(string \<times> string) list"
  wc_body :: "pydict option"

definition url_field :: "env \<Rightarrow> pydict \<Rightarrow> (string \<times> string) list + string" where
  "url_field ev cfg =
     (case map_of cfg ''url'' of
        None \<Rightarrow> Inl [(''url'', ''Field required'')]
      | Some (JStr s) \<Rightarrow>
          (case url_error ev s of
             Some m \<Rightarrow> Inl [(''url'', ''Value error, '' @ m)]
           | None \<Rightarrow> Inr s)
      | Some _ \<Rightarrow> Inl [(''url.url'', ''URL input should be a string or URL''),
                       (''url.str'', ''Input should be a valid string'')])"

definition method_field :: "pydict \<Rightarrow> (string \<times> string) list + string" where
  "method_field cfg =
     (case map_of cfg ''method'' of
        None \<Rightarrow> Inr ''POST''
      | Some (JStr s) \<Rightarrow> Inr (py_upper s)
      | Some _ \<Rightarrow> Inl [(''method'', ''Input should be a valid string'')])"

definition header_errors :: "pydict \<Rightarrow> (string \<times> string) list" where
  "header_errors kvs =
     concat (map (\<lambda>kv. case snd kv of JStr _ \<Rightarrow> []
                        | _ \<Rightarrow> [(''headers.'' @ fst kv, ''Input should be a valid string'')]) kvs)"

definition headers_field :: "pydict \<Rightarrow> (string \<times> string) list + (string \<times> string) list" where
  "headers_field cfg =
     (case map_of cfg ''headers'' of
        None \<Rightarrow> Inr []
      | Some (JDict kvs) \<Rightarrow>
          (if header_errors kvs = []
           then Inr (map (\<lambda>kv. (fst kv, case snd kv of JStr s \<Rightarrow> s | _ \<Rightarrow> [])) kvs)
           else Inl (header_errors kvs))
      | Some _ \<Rightarrow> Inl [(''headers'', ''Input should be a valid dictionary'')])"

definition body_field :: "pydict \<Rightarrow> (string \<times> string) list + pydict option" where
  "body_field cfg =
     (case map_of cfg ''body'' of
        None \<Rightarrow> Inr None
      | Some JNull \<Rightarrow> Inr None
      | Some (JDict kvs) \<Rightarrow> Inr (Some kvs)
      | Some _ \<Rightarrow> Inl [(''body'', ''Input should be a valid dictionary'')])"

definition WebhookConfig_init :: "env \<Rightarrow> pydict \<Rightarrow> error + WebhookConfig" where
  "WebhookConfig_init ev cfg =
     (case (type_field ''webhook'' cfg, url_field ev cfg, method_field cfg, headers_field cfg,
            body_field cfg, extra_errors [''type'', ''url'', ''method'', ''headers'', ''body''] cfg) of
        (Inr ty, Inr url, Inr meth, Inr hdrs, Inr body, []) \<Rightarrow>
          Inr \<lparr>wc_type = ty, wc_url = url, wc_method = meth, wc_headers = hdrs, wc_body = body\<rparr>
      | (ty, url, meth, hdrs, body, extras) \<Rightarrow>
          Inl (ValidationError (pydantic_text ''WebhookConfig''
                 (errors_of ty @ errors_of url @ errors_of meth @ errors_of hdrs @ errors_of body @ extras))))"

section \<open>Template rendering: \<open>value.format(**context)\<close>\<close>

text \<open>
  \<open>str.format\<close> with keyword arguments only. The template is processed from left to
  right; the first failure ends it. Literal text is copied, \<open>{{\<close> and \<open>}}\<close> stand
  for one brace; a replacement field runs to the closing brace. A field with an empty
  name or a number as name refers to the positional arguments, of which there are
  none; any other name is looked up among the keyword arguments, and the value is
  converted as \<open>format(value, '')\<close> does. \<open>PY_SSIZE_T_MAX\<close> is that of a 64-bit build.
\<close>

datatype int_scan = NotInteger | TooManyDigits | IsInteger nat

definition PY_SSIZE_T_MAX :: nat where
  "PY_SSIZE_T_MAX = 2 ^ 63 - 1"

definition is_digit :: "char \<Rightarrow> bool" where
  "is_digit c = (48 \<le> (of_char c :: nat) \<and> (of_char c :: nat) \<le> 57)"

fun get_integer_from :: "nat \<Rightarrow> string \<Rightarrow> int_scan" where
  "get_integer_from acc [] = IsInteger acc"
| "get_integer_from acc (c # cs) =
     (if is_digit c
      then (let d = (of_char c :: nat) - 48 in
            if acc > (PY_SSIZE_T_MAX - d) div 10 then TooManyDigits
            else get_integer_from (acc * 10 + d) cs)
      else NotInteger)"

definition get_integer :: "string \<Rightarrow> int_scan" where
  "get_integer s = (if s = [] then NotInteger else get_integer_from 0 s)"

datatype fmt_result = Rendered string | Raised error | Unsupported

definition format_field :: "ctx \<Rightarrow> string \<Rightarrow> fmt_result" where
  "format_field c nm =
     (if nm = [] then Raised (IndexError ''Replacement index 0 out of range for positional args tuple'')
      else (case get_integer nm of
              TooManyDigits \<Rightarrow> Raised (ValueError ''Too many decimal digits in format string'')
            | IsInteger n \<Rightarrow> Raised (IndexError (''Replacement index '' @ nat_digits n
                                          @ '' out of range for positional args tuple''))
            | NotInteger \<Rightarrow> (case c nm of
                               None \<Rightarrow> Raised (KeyError nm)
                             | Some v \<Rightarrow> Rendered (py_str v))))"

text \<open>\<open>format_scan c mode out s\<close>: \<open>mode = None\<close> while reading literal text,
  \<open>Some nm\<close> inside a replacement field whose name so far is \<open>nm\<close>; \<open>out\<close> is the
  text produced so far.\<close>

fun format_scan :: "ctx \<Rightarrow> string option \<Rightarrow> string \<Rightarrow> string \<Rightarrow> fmt_result" where
  "format_scan c None out [] = Rendered out"
| "format_scan c None out (x # xs) =
     (if x = CHR ''{'' then
        (case xs of
           [] \<Rightarrow> Raised (ValueError ''Single '{' encountered in format string'')
         | y # ys \<Rightarrow> if y = CHR ''{'' then format_scan c None (out @ [x]) ys
                     else format_scan c (Some []) out xs)
      else if x = CHR ''}'' then
        (case xs of
           [] \<Rightarrow> Raised (ValueError ''Single '}' encountered in format string'')
         | y # ys \<Rightarrow> if y = CHR ''}'' then format_scan c None (out @ [x]) ys
                     else Raised (ValueError ''Single '}' encountered in format string''))
      else format_scan c None (out @ [x]) xs)"
| "format_scan c (Some nm) out [] = Raised (ValueError ''expected '}' before end of string'')"
| "format_scan c (Some nm) out (x # xs) =
     (if x = CHR ''}'' then
        (case format_field c nm of
           Rendered v \<Rightarrow> format_scan c None (out @ v) xs
         | r \<Rightarrow> r)
      else if x = CHR ''{'' then Raised (ValueError ''unexpected '{' in field name'')
      else if x \<in> set ''[.:!'' then Unsupported
      else format_scan c (Some (nm @ [x])) out xs)"

definition py_format :: "env \<Rightarrow> string \<Rightarrow> ctx \<Rightarrow> error + string" where
  "py_format ev template c =
     (case format_scan c None [] template of
        Rendered s \<Rightarrow> Inr s
      | Raised e \<Rightarrow> Inl e
      | Unsupported \<Rightarrow> format_other ev template c)"

text \<open>\<open>except (KeyError, ValueError)\<close>; pydantic's \<open>ValidationError\<close> is a \<open>ValueError\<close>.\<close>

definition is_KeyError_or_ValueError :: "error \<Rightarrow> bool" where
  "is_KeyError_or_ValueError e =
     (case e of KeyError _ \<Rightarrow> True | ValueError _ \<Rightarrow> True | ValidationError _ \<Rightarrow> True | _ \<Rightarrow> False)"

text \<open>The \<open>try\<close> around \<open>value.format(**context)\<close>, shared by headers and body.\<close>

definition render_string :: "env \<Rightarrow> ctx \<Rightarrow> string \<Rightarrow> error + string" where
  "render_string ev c v =
     (case py_format ev v c of
        Inr s \<Rightarrow> Inr s
      | Inl e \<Rightarrow> if is_KeyError_or_ValueError e then Inr v else Inl e)"

section \<open>Connectors (connectors/delay.py, connectors/webhook.py)\<close>

record DelayConnector =
  delay_seconds :: int

definition DelayConnector_init :: "DelayConfig \<Rightarrow> DelayConnector" where
  "DelayConnector_init config = \<lparr>delay_seconds = dc_seconds config\<rparr>"

text \<open>After the sleep the connector returns the object it was given.\<close>

definition DelayConnector_execute :: "DelayConnector \<Rightarrow> ctx \<Rightarrow> error + dict_ref" where
  "DelayConnector_execute conn c = Inr ContextObject"

record WebhookConnector =
  wh_url :: string
  wh_method :: string
  wh_headers :: "(string \<times> string) list"
  wh_body :: "pydict option"

definition WebhookConnector_init :: "WebhookConfig \<Rightarrow> WebhookConnector" where
  "WebhookConnector_init config =
     \<lparr>wh_url = wc_url config, wh_method = py_upper (wc_method config),
      wh_headers = wc_headers config, wh_body = wc_body config\<rparr>"

fun render_headers_from :: "env \<Rightarrow> ctx \<Rightarrow> (string \<times> string) list \<Rightarrow> error + (string \<times> string) list" where
  "render_headers_from ev c [] = Inr []"
| "render_headers_from ev c (kv # rest) =
     (case render_string ev c (snd kv) of
        Inl e \<Rightarrow> Inl e
      | Inr v \<Rightarrow> (case render_headers_from ev c rest of
                    Inl e \<Rightarrow> Inl e
                  | Inr rendered \<Rightarrow> Inr ((fst kv, v) # rendered)))"

definition render_headers :: "env \<Rightarrow> WebhookConnector \<Rightarrow> ctx \<Rightarrow> error + (string \<times> string) list" where
  "render_headers ev conn c = render_headers_from ev c (wh_headers conn)"

fun render_value :: "env \<Rightarrow> ctx \<Rightarrow> jvalue \<Rightarrow> error + jvalue"
  and render_list :: "env \<Rightarrow> ctx \<Rightarrow> jvalue list \<Rightarrow> error + jvalue list"
  and render_items :: "env \<Rightarrow> ctx \<Rightarrow> (string \<times> jvalue) list \<Rightarrow> error + (string \<times> jvalue) list" where
  "render_value ev c JNull = Inr JNull"
| "render_value ev c (JStr s) = (case render_string ev c s of Inl e \<Rightarrow> Inl e | Inr r \<Rightarrow> Inr (JStr r))"
| "render_value ev c (JDict kvs) = (case render_items ev c kvs of Inl e \<Rightarrow> Inl e | Inr r \<Rightarrow> Inr (JDict r))"
| "render_value ev c (JList vs) = (case render_list ev c vs of Inl e \<Rightarrow> Inl e | Inr r \<Rightarrow> Inr (JList r))"
| "render_value ev c (JBool b) = Inr (JBool b)"
| "render_value ev c (JInt i) = Inr (JInt i)"
| "render_list ev c [] = Inr []"
| "render_list ev c (v # vs) =
     (case render_value ev c v of
        Inl e \<Rightarrow> Inl e
      | Inr r \<Rightarrow> (case render_list ev c vs of Inl e \<Rightarrow> Inl e | Inr rs \<Rightarrow> Inr (r # rs)))"
| "render_items ev c [] = Inr []"
| "render_items ev c ((k, v) # kvs) =
     (case render_value ev c v of
        Inl e \<Rightarrow> Inl e
      | Inr r \<Rightarrow> (case render_items ev c kvs of Inl e \<Rightarrow> Inl e | Inr rs \<Rightarrow> Inr ((k, r) # rs)))"

definition render_body :: "env \<Rightarrow> WebhookConnector \<Rightarrow> ctx \<Rightarrow> error + jvalue option" where
  "render_body ev conn c =
     (case wh_body conn of
        None \<Rightarrow> Inr None
      | Some kvs \<Rightarrow> (case render_items ev c kvs of Inl e \<Rightarrow> Inl e | Inr r \<Rightarrow> Inr (Some (JDict r))))"

text \<open>The body of the \<open>try\<close> in \<open>execute\<close>: the value stored under \<open>response\<close>, or the
  exception raised on the way.\<close>

definition webhook_request :: "env \<Rightarrow> nat \<Rightarrow> WebhookConnector \<Rightarrow> ctx \<Rightarrow> error + jvalue" where
  "webhook_request ev k conn c =
     (case render_headers ev conn c of
        Inl e \<Rightarrow> Inl e
      | Inr hdrs \<Rightarrow>
         (case (if wh_body conn = None \<or> wh_body conn = Some [] then Inr None else render_body ev conn c) of
            Inl e \<Rightarrow> Inl e
          | Inr body \<Rightarrow>
             (let req = \<lparr>req_method = wh_method conn, req_url = wh_url conn,
                         req_headers = hdrs, req_json = body\<rparr> in
              case send ev k req of
                Inl e \<Rightarrow> Inl e
              | Inr response \<Rightarrow>
                 (if \<not> (200 \<le> resp_status_code response \<and> resp_status_code response < 300)
                  then Inl (TransportError (status_error ev req response))
                  else (case (if py_contains ''application/json''
                                   (case map_of (resp_headers response) ''content-type'' of
                                      None \<Rightarrow> [] | Some v \<Rightarrow> v)
                              then resp_json response
                              else Inr (JStr (resp_text response))) of
                          Inl e \<Rightarrow> Inl e
                        | Inr body_value \<Rightarrow>
                            Inr (JDict [(''status_code'', JInt (resp_status_code response)),
                                        (''headers'', JDict (map (\<lambda>kv. (fst kv, JStr (snd kv)))
                                                             (resp_headers response))),
                                        (''body'', body_value)]))))))"

definition WebhookConnector_execute :: "env \<Rightarrow> nat \<Rightarrow> WebhookConnector \<Rightarrow> ctx \<Rightarrow> error + dict_ref" where
  "WebhookConnector_execute ev k conn c =
     (case webhook_request ev k conn c of
        Inr response \<Rightarrow> Inr (DictObject (c(''response'' \<mapsto> response)))
      | Inl e \<Rightarrow> Inr (DictObject (c(''error'' \<mapsto> JStr (str_e e)))))"

section \<open>The engine (engine.py)\<close>

text \<open>The dispatch table pairs a step type with a connector class and its
  configuration class; \<open>connector_cls\<close> names such a pair.\<close>

datatype connector_cls = Delay_cls | Webhook_cls

definition CONNECTOR_MAP :: "(StepType \<times> connector_cls) list" where
  "CONNECTOR_MAP = [(DELAY, Delay_cls), (WEBHOOK, Webhook_cls)]"

text \<open>The text an f-string gives for a member of the \<open>str\<close>-based enumeration
  (Python 3.11 and later).\<close>

definition StepType_text :: "StepType \<Rightarrow> string" where
  "StepType_text ty = (case ty of DELAY \<Rightarrow> ''StepType.DELAY'' | WEBHOOK \<Rightarrow> ''StepType.WEBHOOK'')"

record WorkflowEngine =
  workflow_storage :: "WorkflowDefinition FilesystemStorage"
  run_storage :: "WorkflowRun FilesystemStorage"

definition WorkflowEngine_init ::
  "WorkflowDefinition FilesystemStorage \<Rightarrow> WorkflowRun FilesystemStorage \<Rightarrow> WorkflowEngine" where
  "WorkflowEngine_init ws rs = \<lparr>workflow_storage = ws, run_storage = rs\<rparr>"

text \<open>
  \<open>start_workflow\<close>. \<open>uuid\<close> is the generated run id and \<open>t\<close> the clock reading. The
  result is the returned run or the raised error, with the engine's storages after
  the call. The background task that is scheduled last is \<open>execute_workflow\<close> below.
\<close>

definition context_or_empty :: "ctx option \<Rightarrow> ctx" where
  "context_or_empty context = (case context of None \<Rightarrow> Map.empty | Some c \<Rightarrow> c)"

definition start_workflow ::
  "WorkflowEngine \<Rightarrow> string \<Rightarrow> nat \<Rightarrow> string \<Rightarrow> ctx option \<Rightarrow> (error + WorkflowRun) \<times> WorkflowEngine" where
  "start_workflow eng uuid t workflow_id context =
     (case storage_get (workflow_storage eng) workflow_id of
        Inl e \<Rightarrow> (Inl e, eng)
      | Inr workflow \<Rightarrow>
         (case storage_create (run_storage eng) (WorkflowRun_new uuid workflow_id RunStatus.PENDING t) of
            (Inl e, rs1) \<Rightarrow> (Inl e, eng\<lparr>run_storage := rs1\<rparr>)
          | (Inr run, rs1) \<Rightarrow>
             (let run1 = run\<lparr>run_context := context_or_empty context,
                             run_current_step_id := Some (wf_entry_point workflow),
                             run_status := RunStatus.RUNNING,
                             run_started_at := Some t\<rparr>;
                  run2 = fold (\<lambda>step. add_step (sd_id step)) (wf_steps workflow) run1
              in case storage_update rs1 run2 of
                   (Inl e, rs2) \<Rightarrow> (Inl e, eng\<lparr>run_storage := rs2\<rparr>)
                 | (Inr _, rs2) \<Rightarrow> (Inr run2, eng\<lparr>run_storage := rs2\<rparr>))))"

text \<open>\<open>_execute_step\<close>, with the dispatch table as a parameter.\<close>

definition execute_step ::
  "env \<Rightarrow> (StepType \<times> connector_cls) list \<Rightarrow> nat \<Rightarrow> StepDefinition \<Rightarrow> ctx \<Rightarrow> error + dict_ref" where
  "execute_step ev cmap k step_def context =
     (case map_of cmap (sd_type step_def) of
        None \<Rightarrow> Inl (ValueError (''Unsupported step type: '' @ StepType_text (sd_type step_def)))
      | Some Delay_cls \<Rightarrow>
          (case DelayConfig_init ev (sd_config step_def) of
             Inl e \<Rightarrow> Inl e
           | Inr config \<Rightarrow> DelayConnector_execute (DelayConnector_init config) context)
      | Some Webhook_cls \<Rightarrow>
          (case WebhookConfig_init ev (sd_config step_def) of
             Inl e \<Rightarrow> Inl e
           | Inr config \<Rightarrow> WebhookConnector_execute ev k (WebhookConnector_init config) context))"

text \<open>The inner \<open>try\<close> block of the loop, for the step \<open>step_def\<close> of a run that has
  been marked as started: the run after the block, or the exception it raises.\<close>

definition try_step ::
  "env \<Rightarrow> (StepType \<times> connector_cls) list \<Rightarrow> nat \<Rightarrow> StepDefinition \<Rightarrow> WorkflowRun \<Rightarrow> error + WorkflowRun" where
  "try_step ev cmap k step_def run =
     (case execute_step ev cmap k step_def (run_context run) of
        Inl e \<Rightarrow> Inl e
      | Inr output \<Rightarrow>
         (case (if deref (run_context run) output \<noteq> Map.empty
                then update_context (deref (run_context run) output) run
                else Inr run) of
            Inl e \<Rightarrow> Inl e
          | Inr run1 \<Rightarrow>
              Inr ((complete_step (clock ev k) (sd_id step_def) (Some output) run1)
                     \<lparr>run_current_step_id := sd_next_step_id step_def\<rparr>)))"

text \<open>The \<open>except\<close> branch of the inner \<open>try\<close>.\<close>

definition mark_failed :: "nat \<Rightarrow> string \<Rightarrow> error \<Rightarrow> WorkflowRun \<Rightarrow> WorkflowRun" where
  "mark_failed t step_id e run =
     (fail_step t step_id (str_e e) run)
       \<lparr>run_status := RunStatus.FAILED,
        run_error := Some (''Step '' @ step_id @ '' failed: '' @ str_e e),
        run_completed_at := Some t\<rparr>"

text \<open>
  The \<open>while\<close> loop. It may run forever on a cyclic chain, so it carries fuel: one
  unit per iteration, \<open>None\<close> when the fuel is used up before the loop ends. \<open>k\<close>
  counts the iterations. The loop ends with the chain exhausted (\<open>ChainDone\<close>, the
  run as it is in memory), with the \<open>return\<close> of the \<open>except\<close> branch
  (\<open>StepFailed\<close>, step id and error text), or with an exception that leaves the loop
  (\<open>Escaped\<close>); the number is the iteration count reached.
\<close>

datatype loop_exit =
    ChainDone WorkflowRun nat
  | StepFailed string string
  | Escaped error nat

fun step_loop ::
  "env \<Rightarrow> (StepType \<times> connector_cls) list \<Rightarrow> WorkflowDefinition \<Rightarrow> nat \<Rightarrow> nat \<Rightarrow> WorkflowRun
     \<Rightarrow> WorkflowRun FilesystemStorage \<Rightarrow> (loop_exit \<times> WorkflowRun FilesystemStorage) option" where
  "step_loop ev cmap workflow fuel k run rs =
     (case run_current_step_id run of
        None \<Rightarrow> Some (ChainDone run k, rs)
      | Some step_id \<Rightarrow>
         (if step_id = [] then Some (ChainDone run k, rs)
          else (case fuel of
                  0 \<Rightarrow> None
                | Suc fuel' \<Rightarrow>
                   (case find (\<lambda>s. sd_id s = step_id) (wf_steps workflow) of
                      None \<Rightarrow> Some (Escaped (ValueError (''Step '' @ step_id @ '' not found in workflow ''
                                                           @ wf_id workflow)) k, rs)
                    | Some step_def \<Rightarrow>
                       (let run1 = start_step (clock ev k) step_id run in
                        case storage_update rs run1 of
                          (Inl e, rs1) \<Rightarrow> Some (Escaped e k, rs1)
                        | (Inr _, rs1) \<Rightarrow>
                           (case try_step ev cmap k step_def run1 of
                              Inl e \<Rightarrow>
                                (case storage_update rs1 (mark_failed (clock ev k) step_id e run1) of
                                   (Inl e', rs2) \<Rightarrow> Some (Escaped e' k, rs2)
                                 | (Inr _, rs2) \<Rightarrow> Some (StepFailed step_id (str_e e), rs2))
                            | Inr run2 \<Rightarrow>
                                (case storage_update rs1 run2 of
                                   (Inl e, rs2) \<Rightarrow> Some (Escaped e k, rs2)
                                 | (Inr _, rs2) \<Rightarrow> step_loop ev cmap workflow fuel' (Suc k) run2 rs2)))))))"

declare step_loop.simps [simp del]

text \<open>The outermost \<open>except\<close>: reload the run and force it into \<open>failed\<close>; when the
  reload or the write fails, the storage stays as it is.\<close>

definition recover :: "nat \<Rightarrow> WorkflowRun FilesystemStorage \<Rightarrow> string \<Rightarrow> error \<Rightarrow> WorkflowRun FilesystemStorage" where
  "recover t rs rid e =
     (case storage_get rs rid of
        Inl _ \<Rightarrow> rs
      | Inr run \<Rightarrow>
          snd (storage_update rs (run\<lparr>run_status := RunStatus.FAILED, run_error := Some (str_e e),
                                       run_completed_at := Some t\<rparr>)))"

text \<open>How \<open>_execute_workflow\<close> ended, as its log lines tell: completed, a step failed,
  or the critical path of the outermost handler.\<close>

datatype exit_kind =
    RunCompleted
  | RunStepFailed string string
  | RunCritical string

definition execute_workflow ::
  "env \<Rightarrow> (StepType \<times> connector_cls) list \<Rightarrow> WorkflowEngine \<Rightarrow> nat \<Rightarrow> string
     \<Rightarrow> (exit_kind \<times> WorkflowEngine) option" where
  "execute_workflow ev cmap eng fuel rid =
     (case storage_get (run_storage eng) rid of
        Inl e \<Rightarrow> Some (RunCritical (str_e e), eng\<lparr>run_storage := recover (clock ev 0) (run_storage eng) rid e\<rparr>)
      | Inr run \<Rightarrow>
         (case storage_get (workflow_storage eng) (run_workflow_id run) of
            Inl e \<Rightarrow> Some (RunCritical (str_e e), eng\<lparr>run_storage := recover (clock ev 0) (run_storage eng) rid e\<rparr>)
          | Inr workflow \<Rightarrow>
             (case step_loop ev cmap workflow fuel 0 run (run_storage eng) of
                None \<Rightarrow> None
              | Some (StepFailed step_id msg, rs) \<Rightarrow> Some (RunStepFailed step_id msg, eng\<lparr>run_storage := rs\<rparr>)
              | Some (Escaped e k, rs) \<Rightarrow>
                  Some (RunCritical (str_e e), eng\<lparr>run_storage := recover (clock ev k) rs rid e\<rparr>)
              | Some (ChainDone run' k, rs) \<Rightarrow>
                 (case storage_update rs (run'\<lparr>run_status := RunStatus.COMPLETED,
                                              run_completed_at := Some (clock ev k)\<rparr>) of
                    (Inl e, rs') \<Rightarrow>
                      Some (RunCritical (str_e e), eng\<lparr>run_storage := recover (clock ev k) rs' rid e\<rparr>)
                  | (Inr _, rs') \<Rightarrow> Some (RunCompleted, eng\<lparr>run_storage := rs'\<rparr>)))))"

text \<open>
  \<open>get_run_status\<close> and \<open>list_workflow_runs\<close> read the attribute \<open>storage\<close> of the
  engine. An instance has the attributes its constructor sets and those of its class.
  A storage object answers \<open>get_run\<close> and \<open>list_runs\<close> for whatever model class it
  was made for; \<open>listing\<close> is the order in which the directory is read.
\<close>

datatype attr_value =
    WorkflowStorageAttr "WorkflowDefinition FilesystemStorage"
  | RunStorageAttr "WorkflowRun FilesystemStorage"
  | ClassAttr string

definition WorkflowEngine_class_attrs :: "string list" where
  "WorkflowEngine_class_attrs =
     [''CONNECTOR_MAP'', ''__init__'', ''start_workflow'', ''_execute_workflow'', ''_execute_step'',
      ''get_run_status'', ''list_workflow_runs'']"

definition WorkflowEngine_getattr :: "WorkflowEngine \<Rightarrow> string \<Rightarrow> error + attr_value" where
  "WorkflowEngine_getattr eng name =
     (if name = ''workflow_storage'' then Inr (WorkflowStorageAttr (workflow_storage eng))
      else if name = ''run_storage'' then Inr (RunStorageAttr (run_storage eng))
      else if name \<in> set WorkflowEngine_class_attrs then Inr (ClassAttr name)
      else Inl (AttributeError (squote ''WorkflowEngine'' @ '' object has no attribute '' @ squote name)))"

definition member_type :: "string \<Rightarrow> string" where
  "member_type n = (if n = ''CONNECTOR_MAP'' then squote ''dict'' else squote ''function'')"

datatype entity = WorkflowEntity WorkflowDefinition | RunEntity WorkflowRun

definition workflow_id_attr :: "entity \<Rightarrow> string option" where
  "workflow_id_attr e = (case e of WorkflowEntity _ \<Rightarrow> None | RunEntity r \<Rightarrow> Some (run_workflow_id r))"

definition storage_list :: "string list \<Rightarrow> 'e FilesystemStorage \<Rightarrow> ('e \<Rightarrow> bool) \<Rightarrow> 'e list" where
  "storage_list listing st keep =
     concat (map (\<lambda>name. case files st name of None \<Rightarrow> [] | Some doc \<Rightarrow> if keep doc then [doc] else [])
                 listing)"

definition list_filter :: "string \<Rightarrow> entity \<Rightarrow> bool" where
  "list_filter workflow_id e = (workflow_id = [] \<or> workflow_id_attr e = Some workflow_id)"

definition get_run_status :: "WorkflowEngine \<Rightarrow> string \<Rightarrow> error + entity" where
  "get_run_status eng rid =
     (case WorkflowEngine_getattr eng ''storage'' of
        Inl e \<Rightarrow> Inl e
      | Inr (WorkflowStorageAttr st) \<Rightarrow> map_sum id WorkflowEntity (storage_get st rid)
      | Inr (RunStorageAttr st) \<Rightarrow> map_sum id RunEntity (storage_get st rid)
      | Inr (ClassAttr n) \<Rightarrow> Inl (AttributeError (member_type n @ '' object has no attribute '' @ squote ''get_run'')))"

definition list_workflow_runs :: "string list \<Rightarrow> WorkflowEngine \<Rightarrow> string \<Rightarrow> error + entity list" where
  "list_workflow_runs listing eng workflow_id =
     (case WorkflowEngine_getattr eng ''storage'' of
        Inl e \<Rightarrow> Inl e
      | Inr (WorkflowStorageAttr st) \<Rightarrow>
          Inr (map WorkflowEntity (storage_list listing st (\<lambda>w. list_filter workflow_id (WorkflowEntity w))))
      | Inr (RunStorageAttr st) \<Rightarrow>
          Inr (map RunEntity (storage_list listing st (\<lambda>r. list_filter workflow_id (RunEntity r))))
      | Inr (ClassAttr n) \<Rightarrow> Inl (AttributeError (member_type n @ '' object has no attribute '' @ squote ''list_runs'')))"

section \<open>The sample workflow (sample_workflow.py)\<close>

definition sample_workflow :: WorkflowDefinition where
  "sample_workflow =
     \<lparr>wf_id = ''invoice_reminder'',
      wf_name = ''Invoice Reminder Workflow'',
      wf_description = Some ''Sends a reminder email for overdue invoices'',
      wf_entry_point = ''delay_step'',
      wf_steps =
        [\<lparr>sd_id = ''delay_step'', sd_type = DELAY,
          sd_config = [(''seconds'', JInt 2)],
          sd_next_step_id = Some ''send_reminder''\<rparr>,
         \<lparr>sd_id = ''send_reminder'', sd_type = WEBHOOK,
          sd_config =
            [(''url'', JStr ''http://localhost:8001/notify''),
             (''method'', JStr ''POST''),
             (''headers'', JDict [(''Content-Type'', JStr ''application/json'')]),
             (''body'', JDict
                [(''to'', JStr ''{{customer_email}}''),
                 (''subject'', JStr ''Invoice Overdue Reminder''),
                 (''message'', JStr ''Your invoice {{invoice_id}} is overdue since {{due_date}}. Please make payment.''),
                 (''invoice_id'', JStr ''{{invoice_id}}''),
                 (''amount'', JStr ''{{amount}}''),
                 (''due_date'', JStr ''{{due_date}}''),
                 (''customer_name'', JStr ''{{customer_name}}'')])],
          sd_next_step_id = None\<rparr>],
      wf_status = ACTIVE, wf_created_at = 0, wf_updated_at = 0\<rparr>"

definition sample_context :: ctx where
  "sample_context =
     [''customer_email'' \<mapsto> JStr ''customer@example.com'',
      ''invoice_id'' \<mapsto> JStr ''INV-12345'',
      ''amount'' \<mapsto> JStr ''$150.00'',
      ''due_date'' \<mapsto> JStr ''2023-01-15'',
      ''customer_name'' \<mapsto> JStr ''John Doe'']"

text \<open>The engine of the sample script after the workflow has been saved.\<close>

definition sample_engine :: WorkflowEngine where
  "sample_engine =
     WorkflowEngine_init (snd (storage_create for_workflows sample_workflow)) for_runs"

section \<open>Inputs for the concrete examples\<close>

text \<open>
  One environment: the clock reads the iteration count, no HTTP server can be reached,
  strings are not converted to integers, every URL passes the validator, and
  templates outside the modelled fragment are rejected.
\<close>

definition example_env :: env where
  "example_env =
     \<lparr>clock = (\<lambda>k. k),
      send = (\<lambda>k req. Inl (TransportError ''All connection attempts failed'')),
      status_error = (\<lambda>req resp. ''Client error''),
      str_as_int = (\<lambda>s. None),
      url_error = (\<lambda>s. None),
      format_other = (\<lambda>template c. Inl (ValueError ''Invalid format specifier''))\<rparr>"

text \<open>A chain of two Delay steps that closes a cycle; the second step has a
  configuration that its schema rejects.\<close>

definition cyclic_workflow :: WorkflowDefinition where
  "cyclic_workflow =
     \<lparr>wf_id = ''loop'', wf_name = ''loop'', wf_description = None, wf_entry_point = ''A'',
      wf_steps =
        [\<lparr>sd_id = ''A'', sd_type = DELAY, sd_config = [(''seconds'', JInt 1)], sd_next_step_id = Some ''B''\<rparr>,
         \<lparr>sd_id = ''B'', sd_type = DELAY, sd_config = [(''seconds'', JInt 0)], sd_next_step_id = Some ''A''\<rparr>],
      wf_status = ACTIVE, wf_created_at = 0, wf_updated_at = 0\<rparr>"


text \<open>A workflow of one Webhook step whose target is the subscriber of the test
  script, and an engine that has it stored.\<close>

definition notify_workflow :: WorkflowDefinition where
  "notify_workflow =
     \<lparr>wf_id = ''notify'', wf_name = ''notify'', wf_description = None, wf_entry_point = ''send'',
      wf_steps =
        [\<lparr>sd_id = ''send'', sd_type = WEBHOOK,
          sd_config = [(''url'', JStr ''http://localhost:8001/notify'')],
          sd_next_step_id = None\<rparr>],
      wf_status = ACTIVE, wf_created_at = 0, wf_updated_at = 0\<rparr>"

definition notify_engine :: WorkflowEngine where
  "notify_engine =
     WorkflowEngine_init (snd (storage_create for_workflows notify_workflow)) for_runs"

section \<open>Auxiliary notions for the proofs\<close>

text \<open>The run that \<open>start_workflow\<close> builds and persists.\<close>

definition started_run :: "WorkflowDefinition \<Rightarrow> string \<Rightarrow> nat \<Rightarrow> string \<Rightarrow> ctx option \<Rightarrow> WorkflowRun" where
  "started_run workflow uuid t wid context =
     fold (\<lambda>step. add_step (sd_id step)) (wf_steps workflow)
       ((WorkflowRun_new uuid wid RunStatus.PENDING t)
          \<lparr>run_context := context_or_empty context,
           run_current_step_id := Some (wf_entry_point workflow),
           run_status := RunStatus.RUNNING,
           run_started_at := Some t\<rparr>)"







section \<open>Verified properties\<close>

lemma validate_steps_iff:
  "validate_steps steps = (if distinct (map sd_id steps) then Inr steps
     else Inl (ValueError ''Step IDs must be unique within a workflow''))"
proof -
  have "(length (map sd_id steps) = length (remdups (map sd_id steps))) = distinct (map sd_id steps)"
    by (metis length_remdups_eq remdups_id_iff_distinct)
  then show ?thesis
    unfolding validate_steps_def Let_def by (simp del: length_map)
qed

lemma validate_entry_point_ok:
  "wf_entry_point w \<in> set (map sd_id (wf_steps w)) \<Longrightarrow>
   \<forall>step \<in> set (wf_steps w). \<forall>n. sd_next_step_id step = Some n \<longrightarrow> n \<in> set (map sd_id (wf_steps w)) \<Longrightarrow>
   validate_entry_point w = Inr w"
  unfolding validate_entry_point_def Let_def
  by (auto simp: find_None_iff split: option.splits)

lemma validate_entry_point_bad:
  "wf_entry_point w \<notin> set (map sd_id (wf_steps w)) \<or>
   (\<exists>step \<in> set (wf_steps w). \<exists>n. sd_next_step_id step = Some n \<and> n \<notin> set (map sd_id (wf_steps w))) \<Longrightarrow>
   \<exists>m. validate_entry_point w = Inl (ValueError m)"
  unfolding validate_entry_point_def Let_def
  by (auto simp: find_None_iff split: option.splits)

lemma validate_entry_point_isl:
  "isl (validate_entry_point w) =
     (wf_entry_point w \<notin> set (map sd_id (wf_steps w)) \<or>
      (\<exists>step \<in> set (wf_steps w). \<exists>n. sd_next_step_id step = Some n \<and> n \<notin> set (map sd_id (wf_steps w))))"
proof -
  let ?P = "\<lambda>step. case sd_next_step_id step of None \<Rightarrow> False
                     | Some n \<Rightarrow> n \<notin> set (map sd_id (wf_steps w))"
  have a: "(find ?P (wf_steps w) \<noteq> None) = (\<exists>step \<in> set (wf_steps w). ?P step)"
    by (simp only: find_None_iff) blast
  have b: "?P step = (\<exists>n. sd_next_step_id step = Some n \<and> n \<notin> set (map sd_id (wf_steps w)))"
    for step by (cases "sd_next_step_id step") simp_all
  have c: "isl (validate_entry_point w) =
      (wf_entry_point w \<notin> set (map sd_id (wf_steps w)) \<or> find ?P (wf_steps w) \<noteq> None)"
    unfolding validate_entry_point_def Let_def
    by (cases "find ?P (wf_steps w)") simp_all
  have ab: "(find ?P (wf_steps w) \<noteq> None) =
      (\<exists>step \<in> set (wf_steps w). \<exists>n. sd_next_step_id step = Some n \<and> n \<notin> set (map sd_id (wf_steps w)))"
    unfolding a by (simp only: b)
  show ?thesis unfolding c ab ..
qed

lemma WorkflowDefinition_init_isl:
  "isl (WorkflowDefinition_init w) =
     (\<not> distinct (map sd_id (wf_steps w)) \<or> isl (validate_entry_point w))"
  unfolding WorkflowDefinition_init_def validate_steps_iff
  by (simp split: sum.splits)

text \<open>
  Claim C4. Constructing a workflow definition fails with a validation error whenever
  two steps share an id, or the entry point is not the id of a step, or some step names
  a successor that is not the id of a step; it succeeds, returning the definition
  unchanged, for every chain with unique ids, an entry point among them and every
  present successor among them. The step configurations play no part: replacing them
  by any others changes neither acceptance nor rejection.
\<close>

theorem workflow_definition_validation:
  "((\<not> distinct (map sd_id (wf_steps w))
      \<or> wf_entry_point w \<notin> set (map sd_id (wf_steps w))
      \<or> (\<exists>step \<in> set (wf_steps w). \<exists>n. sd_next_step_id step = Some n
            \<and> n \<notin> set (map sd_id (wf_steps w))))
     \<longrightarrow> (\<exists>m. WorkflowDefinition_init w = Inl (ValidationError m)))
   \<and> ((distinct (map sd_id (wf_steps w))
      \<and> wf_entry_point w \<in> set (map sd_id (wf_steps w))
      \<and> (\<forall>step \<in> set (wf_steps w). \<forall>n. sd_next_step_id step = Some n
            \<longrightarrow> n \<in> set (map sd_id (wf_steps w))))
     \<longrightarrow> WorkflowDefinition_init w = Inr w)
   \<and> (isl (WorkflowDefinition_init (w\<lparr>wf_steps := map (\<lambda>s. s\<lparr>sd_config := c s\<rparr>) (wf_steps w)\<rparr>))
        = isl (WorkflowDefinition_init w))"
proof (intro conjI impI)
  assume bad: "\<not> distinct (map sd_id (wf_steps w))
      \<or> wf_entry_point w \<notin> set (map sd_id (wf_steps w))
      \<or> (\<exists>step \<in> set (wf_steps w). \<exists>n. sd_next_step_id step = Some n
            \<and> n \<notin> set (map sd_id (wf_steps w)))"
  show "\<exists>m. WorkflowDefinition_init w = Inl (ValidationError m)"
  proof (cases "distinct (map sd_id (wf_steps w))")
    case False
    then show ?thesis by (simp add: WorkflowDefinition_init_def validate_steps_iff)
  next
    case True
    with bad have "\<exists>m. validate_entry_point w = Inl (ValueError m)"
      by (intro validate_entry_point_bad) blast
    with True show ?thesis
      by (auto simp: WorkflowDefinition_init_def validate_steps_iff)
  qed
next
  assume good: "distinct (map sd_id (wf_steps w))
      \<and> wf_entry_point w \<in> set (map sd_id (wf_steps w))
      \<and> (\<forall>step \<in> set (wf_steps w). \<forall>n. sd_next_step_id step = Some n
            \<longrightarrow> n \<in> set (map sd_id (wf_steps w)))"
  then have "validate_entry_point w = Inr w"
    by (intro validate_entry_point_ok) blast+
  with good show "WorkflowDefinition_init w = Inr w"
    by (simp add: WorkflowDefinition_init_def validate_steps_iff)
next
  have ids: "map sd_id (map (\<lambda>s. s\<lparr>sd_config := c s\<rparr>) (wf_steps w)) = map sd_id (wf_steps w)"
    by simp
  show "isl (WorkflowDefinition_init (w\<lparr>wf_steps := map (\<lambda>s. s\<lparr>sd_config := c s\<rparr>) (wf_steps w)\<rparr>))
        = isl (WorkflowDefinition_init w)"
    unfolding WorkflowDefinition_init_isl validate_entry_point_isl
    by (simp add: o_def)
qed

theorem workflow_definition_validation_witness:
  "WorkflowDefinition_init
     \<lparr>wf_id = ''w'', wf_name = ''n'', wf_description = None, wf_entry_point = ''A'',
      wf_steps = [\<lparr>sd_id = ''A'', sd_type = DELAY, sd_config = [(''seconds'', JInt 0)], sd_next_step_id = Some ''B''\<rparr>,
                  \<lparr>sd_id = ''B'', sd_type = WEBHOOK, sd_config = [], sd_next_step_id = None\<rparr>],
      wf_status = ACTIVE, wf_created_at = 0, wf_updated_at = 0\<rparr>
   = Inr \<lparr>wf_id = ''w'', wf_name = ''n'', wf_description = None, wf_entry_point = ''A'',
      wf_steps = [\<lparr>sd_id = ''A'', sd_type = DELAY, sd_config = [(''seconds'', JInt 0)], sd_next_step_id = Some ''B''\<rparr>,
                  \<lparr>sd_id = ''B'', sd_type = WEBHOOK, sd_config = [], sd_next_step_id = None\<rparr>],
      wf_status = ACTIVE, wf_created_at = 0, wf_updated_at = 0\<rparr>
   \<and> (\<exists>m. WorkflowDefinition_init
     \<lparr>wf_id = ''w'', wf_name = ''n'', wf_description = None, wf_entry_point = ''A'',
      wf_steps = [\<lparr>sd_id = ''A'', sd_type = DELAY, sd_config = [], sd_next_step_id = Some ''C''\<rparr>],
      wf_status = ACTIVE, wf_created_at = 0, wf_updated_at = 0\<rparr> = Inl (ValidationError m))"
  using workflow_definition_validation [of
     "\<lparr>wf_id = ''w'', wf_name = ''n'', wf_description = None, wf_entry_point = ''A'',
      wf_steps = [\<lparr>sd_id = ''A'', sd_type = DELAY, sd_config = [(''seconds'', JInt 0)], sd_next_step_id = Some ''B''\<rparr>,
                  \<lparr>sd_id = ''B'', sd_type = WEBHOOK, sd_config = [], sd_next_step_id = None\<rparr>],
      wf_status = ACTIVE, wf_created_at = 0, wf_updated_at = 0\<rparr>"]
    workflow_definition_validation [of
     "\<lparr>wf_id = ''w'', wf_name = ''n'', wf_description = None, wf_entry_point = ''A'',
      wf_steps = [\<lparr>sd_id = ''A'', sd_type = DELAY, sd_config = [], sd_next_step_id = Some ''C''\<rparr>],
      wf_status = ACTIVE, wf_created_at = 0, wf_updated_at = 0\<rparr>"]
  by simp





lemma fold_add_step_fields:
  "run_id (fold (\<lambda>step. add_step (sd_id step)) steps run) = run_id run
   \<and> run_workflow_id (fold (\<lambda>step. add_step (sd_id step)) steps run) = run_workflow_id run
   \<and> run_status (fold (\<lambda>step. add_step (sd_id step)) steps run) = run_status run
   \<and> run_started_at (fold (\<lambda>step. add_step (sd_id step)) steps run) = run_started_at run
   \<and> run_context (fold (\<lambda>step. add_step (sd_id step)) steps run) = run_context run
   \<and> run_current_step_id (fold (\<lambda>step. add_step (sd_id step)) steps run) = run_current_step_id run"
  by (induction steps arbitrary: run) (simp_all add: add_step_def)

lemma fold_add_step_steps:
  "run_steps (fold (\<lambda>step. add_step (sd_id step)) steps run) k =
     (if run_steps run k = None \<and> k \<in> set (map sd_id steps) then Some (StepRun_new k) else run_steps run k)"
  by (induction steps arbitrary: run) (auto simp: add_step_def)

lemma dump_load_no_output:
  "\<forall>k sr. run_steps run k = Some sr \<longrightarrow> sr_output sr = None \<Longrightarrow> WorkflowRun_dump_load run = run"
proof -
  assume a: "\<forall>k sr. run_steps run k = Some sr \<longrightarrow> sr_output sr = None"
  have "(\<lambda>k. map_option
        (\<lambda>sr. sr\<lparr>sr_output := map_option (\<lambda>r. DictObject (deref (run_context run) r)) (sr_output sr)\<rparr>)
        (run_steps run k)) = run_steps run"
  proof
    fix k show "map_option
        (\<lambda>sr. sr\<lparr>sr_output := map_option (\<lambda>r. DictObject (deref (run_context run) r)) (sr_output sr)\<rparr>)
        (run_steps run k) = run_steps run k"
      using a by (cases "run_steps run k") auto
  qed
  then show ?thesis by (simp add: WorkflowRun_dump_load_def)
qed

text \<open>
  Claim C1. For every stored workflow definition and every initial context,
  \<open>start_workflow\<close> (given a generated run id that is not empty and not in use)
  returns a run in status \<open>running\<close> whose current step is the definition's entry
  point, whose context is the given one (empty when none is given), whose
  \<open>started_at\<close> is set, and whose steps are exactly the ids of the definition's steps,
  each with a fresh Step Run in status \<open>pending\<close>; that run is the one persisted.
  If no definition is stored under the id, the call fails with \<open>NotFoundError\<close> and
  the storages are unchanged.
\<close>

theorem start_workflow_result:
  "model_cls (run_storage eng) = WorkflowRun_class \<longrightarrow>
    ((files (workflow_storage eng) wid = Some workflow \<and> uuid \<noteq> [] \<and> files (run_storage eng) uuid = None \<longrightarrow>
       (\<exists>run eng'. start_workflow eng uuid t wid context = (Inr run, eng')
          \<and> run_id run = uuid \<and> run_workflow_id run = wid
          \<and> run_status run = RunStatus.RUNNING
          \<and> run_current_step_id run = Some (wf_entry_point workflow)
          \<and> run_context run = (case context of None \<Rightarrow> Map.empty | Some c \<Rightarrow> c)
          \<and> run_started_at run = Some t
          \<and> dom (run_steps run) = set (map sd_id (wf_steps workflow))
          \<and> (\<forall>step \<in> set (wf_steps workflow).
                run_steps run (sd_id step) = Some (StepRun_new (sd_id step))
                \<and> sr_status (StepRun_new (sd_id step)) = StepStatus.PENDING)
          \<and> storage_get (run_storage eng') uuid = Inr run
          \<and> workflow_storage eng' = workflow_storage eng))
     \<and> (files (workflow_storage eng) wid = None \<longrightarrow>
          (\<exists>m. start_workflow eng uuid t wid context = (Inl (NotFoundError m), eng))))"
proof (intro impI conjI)
  assume cls: "model_cls (run_storage eng) = WorkflowRun_class"
  assume h: "files (workflow_storage eng) wid = Some workflow \<and> uuid \<noteq> [] \<and> files (run_storage eng) uuid = None"
  let ?run1 = "(WorkflowRun_new uuid wid RunStatus.PENDING t)
                 \<lparr>run_context := context_or_empty context,
                  run_current_step_id := Some (wf_entry_point workflow),
                  run_status := RunStatus.RUNNING,
                  run_started_at := Some t\<rparr>"
  let ?run2 = "fold (\<lambda>step. add_step (sd_id step)) (wf_steps workflow) ?run1"
  have steps2: "run_steps ?run2 k = (if k \<in> set (map sd_id (wf_steps workflow)) then Some (StepRun_new k) else None)" for k
    by (simp add: fold_add_step_steps WorkflowRun_new_def)
  have dl: "WorkflowRun_dump_load ?run2 = ?run2"
    by (rule dump_load_no_output) (auto simp: steps2 StepRun_new_def split: if_splits)
  have id2: "run_id ?run2 = uuid"
    by (simp add: fold_add_step_fields WorkflowRun_new_def)
  have res: "start_workflow eng uuid t wid context =
      (Inr ?run2, eng\<lparr>run_storage := (run_storage eng)\<lparr>files := (files (run_storage eng))(uuid \<mapsto> ?run2)\<rparr>\<rparr>)"
    using h cls id2 dl
    by (simp add: start_workflow_def storage_get_def storage_create_def storage_update_def
        WorkflowRun_class_def Let_def WorkflowRun_new_def)
  let ?eng' = "eng\<lparr>run_storage := (run_storage eng)\<lparr>files := (files (run_storage eng))(uuid \<mapsto> ?run2)\<rparr>\<rparr>"
  have dom2: "dom (run_steps ?run2) = set (map sd_id (wf_steps workflow))"
    by (auto simp: dom_def steps2)
  have props: "run_id ?run2 = uuid \<and> run_workflow_id ?run2 = wid
          \<and> run_status ?run2 = RunStatus.RUNNING
          \<and> run_current_step_id ?run2 = Some (wf_entry_point workflow)
          \<and> run_context ?run2 = (case context of None \<Rightarrow> Map.empty | Some c \<Rightarrow> c)
          \<and> run_started_at ?run2 = Some t"
    by (simp add: fold_add_step_fields WorkflowRun_new_def context_or_empty_def)
  have stepsP: "\<forall>step \<in> set (wf_steps workflow).
                run_steps ?run2 (sd_id step) = Some (StepRun_new (sd_id step))
                \<and> sr_status (StepRun_new (sd_id step)) = StepStatus.PENDING"
    by (simp add: steps2 StepRun_new_def)
  have get: "storage_get (run_storage ?eng') uuid = Inr ?run2"
    by (simp add: storage_get_def)
  have ws: "workflow_storage ?eng' = workflow_storage eng"
    by simp
  show "\<exists>run eng'. start_workflow eng uuid t wid context = (Inr run, eng')
          \<and> run_id run = uuid \<and> run_workflow_id run = wid
          \<and> run_status run = RunStatus.RUNNING
          \<and> run_current_step_id run = Some (wf_entry_point workflow)
          \<and> run_context run = (case context of None \<Rightarrow> Map.empty | Some c \<Rightarrow> c)
          \<and> run_started_at run = Some t
          \<and> dom (run_steps run) = set (map sd_id (wf_steps workflow))
          \<and> (\<forall>step \<in> set (wf_steps workflow).
                run_steps run (sd_id step) = Some (StepRun_new (sd_id step))
                \<and> sr_status (StepRun_new (sd_id step)) = StepStatus.PENDING)
          \<and> storage_get (run_storage eng') uuid = Inr run
          \<and> workflow_storage eng' = workflow_storage eng"
    apply (rule exI[of _ ?run2])
    apply (rule exI[of _ ?eng'])
    using res props dom2 stepsP get ws by blast
next
  assume "files (workflow_storage eng) wid = None"
  then show "\<exists>m. start_workflow eng uuid t wid context = (Inl (NotFoundError m), eng)"
    by (simp add: start_workflow_def storage_get_def)
qed


lemma sample_engine_simps:
  "files (workflow_storage sample_engine) ''invoice_reminder'' = Some sample_workflow"
  "files (workflow_storage sample_engine) ''missing'' = None"
  "files (run_storage sample_engine) k = None"
  "model_cls (run_storage sample_engine) = WorkflowRun_class"
  by (simp_all add: sample_engine_def WorkflowEngine_init_def storage_create_def for_workflows_def
      for_runs_def WorkflowDefinition_class_def Let_def sample_workflow_def)

theorem start_workflow_result_witness:
  "(\<exists>run eng'.
      start_workflow sample_engine ''run-1'' 7 ''invoice_reminder'' (Some sample_context) = (Inr run, eng')
      \<and> run_id run = ''run-1'' \<and> run_workflow_id run = ''invoice_reminder''
      \<and> run_status run = RunStatus.RUNNING
      \<and> run_current_step_id run = Some ''delay_step''
      \<and> run_context run = sample_context
      \<and> run_started_at run = Some 7
      \<and> dom (run_steps run) = {''delay_step'', ''send_reminder''}
      \<and> run_steps run ''delay_step'' = Some (StepRun_new ''delay_step'')
      \<and> sr_status (StepRun_new ''delay_step'') = StepStatus.PENDING
      \<and> run_steps run ''send_reminder'' = Some (StepRun_new ''send_reminder'')
      \<and> sr_status (StepRun_new ''send_reminder'') = StepStatus.PENDING
      \<and> storage_get (run_storage eng') ''run-1'' = Inr run
      \<and> workflow_storage eng' = workflow_storage sample_engine)
   \<and> (\<exists>m. start_workflow sample_engine ''run-1'' 7 ''missing'' None = (Inl (NotFoundError m), sample_engine))"
  using start_workflow_result [of sample_engine "''invoice_reminder''" sample_workflow "''run-1''" 7 "Some sample_context"]
    start_workflow_result [of sample_engine "''missing''" sample_workflow "''run-1''" 7 None]
  by (simp add: sample_engine_simps sample_workflow_def)

lemma storage_update_run:
  "model_cls rs = WorkflowRun_class \<Longrightarrow> run_id run \<noteq> [] \<Longrightarrow> files rs (run_id run) \<noteq> None \<Longrightarrow>
   storage_update rs run = (Inr run, rs\<lparr>files := (files rs)(run_id run \<mapsto> WorkflowRun_dump_load run)\<rparr>)"
  by (simp add: storage_update_def WorkflowRun_class_def Let_def)

lemma run_id_start_step: "run_id (start_step t sid run) = run_id run"
  by (simp add: start_step_def add_step_def Let_def split: option.splits)


lemma run_id_mark_failed: "run_id (mark_failed t sid e run) = run_id run"
  by (simp add: mark_failed_def fail_step_def split: option.splits)


lemma run_steps_start_step:
  "run_steps (start_step t sid run) =
     (run_steps run)(sid \<mapsto> (case run_steps run sid of None \<Rightarrow> StepRun_new sid | Some sr \<Rightarrow> sr)
                            \<lparr>sr_status := StepStatus.RUNNING, sr_start_time := Some t\<rparr>)"
  by (auto simp: start_step_def add_step_def Let_def split: option.splits)

lemma run_context_start_step: "run_context (start_step t sid run) = run_context run"
  by (simp add: start_step_def add_step_def Let_def split: option.splits)

lemma try_step_Inr:
  "try_step ev cmap k sd run = Inr run2 \<Longrightarrow>
   \<exists>output. execute_step ev cmap k sd (run_context run) = Inr output
     \<and> deref (run_context run) output ''self'' = None
     \<and> run_context run2 = run_context run ++ deref (run_context run) output
     \<and> run_current_step_id run2 = sd_next_step_id sd
     \<and> run_steps run2 = (case run_steps run (sd_id sd) of None \<Rightarrow> run_steps run
          | Some sr \<Rightarrow> (run_steps run)(sd_id sd \<mapsto>
              sr\<lparr>sr_status := StepStatus.COMPLETED, sr_end_time := Some (clock ev k),
                 sr_output := Some (output_or_empty (run_context run2) (Some output))\<rparr>))"
  by (auto simp: try_step_def update_context_def complete_step_def split: sum.splits if_splits option.splits)

lemma run_steps_mark_failed:
  "run_steps run sid = Some sr \<Longrightarrow>
   run_steps (mark_failed t sid e run) =
     (run_steps run)(sid \<mapsto> sr\<lparr>sr_status := StepStatus.FAILED, sr_end_time := Some t, sr_error := Some (str_e e)\<rparr>)"
  by (simp add: mark_failed_def fail_step_def)

lemma mark_failed_fields:
  "run_status (mark_failed t sid e run) = RunStatus.FAILED
   \<and> run_completed_at (mark_failed t sid e run) = Some t
   \<and> run_error (mark_failed t sid e run) = Some (''Step '' @ sid @ '' failed: '' @ str_e e)"
  by (simp add: mark_failed_def)


text \<open>One iteration that fails.\<close>

lemma step_loop_failure:
  assumes "model_cls rs = WorkflowRun_class" "run_id run \<noteq> []" "files rs (run_id run) \<noteq> None"
    and "run_current_step_id run = Some sid" "sid \<noteq> []"
    and "find (\<lambda>s. sd_id s = sid) (wf_steps workflow) = Some sd"
    and "try_step ev cmap k sd (start_step (clock ev k) sid run) = Inl e"
  shows "step_loop ev cmap workflow (Suc fuel) k run rs =
     Some (StepFailed sid (str_e e),
           rs\<lparr>files := (files rs)(run_id run \<mapsto>
               WorkflowRun_dump_load (mark_failed (clock ev k) sid e (start_step (clock ev k) sid run)))\<rparr>)"
proof -
  let ?run1 = "start_step (clock ev k) sid run"
  let ?rs1 = "rs\<lparr>files := (files rs)(run_id run \<mapsto> WorkflowRun_dump_load ?run1)\<rparr>"
  have u1: "storage_update rs ?run1 = (Inr ?run1, ?rs1)"
    using assms(1-3) storage_update_run [of rs ?run1] by (simp add: run_id_start_step)
  have u2: "storage_update ?rs1 (mark_failed (clock ev k) sid e ?run1) =
      (Inr (mark_failed (clock ev k) sid e ?run1),
       ?rs1\<lparr>files := (files ?rs1)(run_id run \<mapsto> WorkflowRun_dump_load (mark_failed (clock ev k) sid e ?run1))\<rparr>)"
    using assms(1-3) storage_update_run [of ?rs1 "mark_failed (clock ev k) sid e ?run1"]
    by (simp add: run_id_start_step run_id_mark_failed)
  show ?thesis
    using assms(4-7) by (simp add: step_loop.simps [of _ _ _ "Suc fuel"] Let_def u1 u2)
qed






lemma started_run_steps:
  "run_steps (started_run workflow uuid t wid context) k =
     (if k \<in> set (map sd_id (wf_steps workflow)) then Some (StepRun_new k) else None)"
  by (simp add: started_run_def fold_add_step_steps WorkflowRun_new_def)

lemma started_run_fields:
  "run_id (started_run workflow uuid t wid context) = uuid"
  "run_workflow_id (started_run workflow uuid t wid context) = wid"
  "run_status (started_run workflow uuid t wid context) = RunStatus.RUNNING"
  "run_current_step_id (started_run workflow uuid t wid context) = Some (wf_entry_point workflow)"
  "run_context (started_run workflow uuid t wid context) = context_or_empty context"
  "run_started_at (started_run workflow uuid t wid context) = Some t"
  by (simp_all add: started_run_def fold_add_step_fields WorkflowRun_new_def)

lemma started_run_dump_load:
  "WorkflowRun_dump_load (started_run workflow uuid t wid context) = started_run workflow uuid t wid context"
  by (rule dump_load_no_output) (auto simp: started_run_steps StepRun_new_def split: if_splits)

lemma start_workflow_success:
  assumes "model_cls (run_storage eng) = WorkflowRun_class"
    and "files (workflow_storage eng) wid = Some workflow" "uuid \<noteq> []" "files (run_storage eng) uuid = None"
  shows "start_workflow eng uuid t wid context =
     (Inr (started_run workflow uuid t wid context),
      eng\<lparr>run_storage := (run_storage eng)\<lparr>files := (files (run_storage eng))(uuid \<mapsto>
               started_run workflow uuid t wid context)\<rparr>\<rparr>)"
proof -
  have "WorkflowRun_dump_load (started_run workflow uuid t wid context) = started_run workflow uuid t wid context"
    by (rule started_run_dump_load)
  moreover have "run_id (started_run workflow uuid t wid context) = uuid"
    by (rule started_run_fields)
  ultimately show ?thesis
    using assms unfolding started_run_def
    by (simp add: start_workflow_def storage_get_def storage_create_def storage_update_def
        WorkflowRun_class_def Let_def WorkflowRun_new_def)
qed


lemma dump_load_fields:
  "run_id (WorkflowRun_dump_load r) = run_id r"
  "run_status (WorkflowRun_dump_load r) = run_status r"
  "run_completed_at (WorkflowRun_dump_load r) = run_completed_at r"
  "run_error (WorkflowRun_dump_load r) = run_error r"
  "run_context (WorkflowRun_dump_load r) = run_context r"
  "run_current_step_id (WorkflowRun_dump_load r) = run_current_step_id r"
  by (simp_all add: WorkflowRun_dump_load_def)

lemma dump_load_steps:
  "run_steps (WorkflowRun_dump_load r) k =
     map_option (\<lambda>sr. sr\<lparr>sr_output := map_option (\<lambda>x. DictObject (deref (run_context r) x)) (sr_output sr)\<rparr>)
       (run_steps r k)"
  by (simp add: WorkflowRun_dump_load_def)

lemma execute_workflow_step_failed:
  assumes "files (run_storage eng) rid = Some run" "files (workflow_storage eng) (run_workflow_id run) = Some workflow"
    and "step_loop ev cmap workflow fuel 0 run (run_storage eng) = Some (StepFailed sid msg, rs')"
  shows "execute_workflow ev cmap eng fuel rid = Some (RunStepFailed sid msg, eng\<lparr>run_storage := rs'\<rparr>)"
  using assms by (simp add: execute_workflow_def storage_get_def)




lemma try_step_execute_Inl:
  "execute_step ev cmap k sd (run_context run) = Inl e \<Longrightarrow> try_step ev cmap k sd run = Inl e"
  by (simp add: try_step_def)

lemma map_add_self: "m ++ m = m"
  by (rule ext) (simp add: map_add_def split: option.splits)

lemma try_step_delay:
  assumes "map_of cmap (sd_type sd) = Some Delay_cls" "DelayConfig_init ev (sd_config sd) = Inr cfg"
    and "run_context run ''self'' = None"
  shows "try_step ev cmap k sd run =
     Inr ((complete_step (clock ev k) (sd_id sd) (Some ContextObject) run)
            \<lparr>run_current_step_id := sd_next_step_id sd\<rparr>)"
  using assms
  by (simp add: try_step_def execute_step_def DelayConnector_execute_def update_context_def map_add_self)


lemma delay_config_zero:
  "DelayConfig_init ev [(''seconds'', JInt 0)] =
     Inl (ValidationError (pydantic_text ''DelayConfig'' [(''seconds'', ''Input should be greater than 0'')]))"
  by (simp add: DelayConfig_init_def type_field_def seconds_field_def pyd_int_def extra_errors_def errors_of_def)













lemma DelayConfig_init_Inl:
  "DelayConfig_init ev cfg = Inl e \<Longrightarrow> \<exists>m. e = ValidationError m"
  by (auto simp: DelayConfig_init_def split: sum.splits list.splits)

lemma execute_step_delay:
  "map_of cmap (sd_type sd) = Some Delay_cls \<Longrightarrow>
   execute_step ev cmap k sd c =
     (case DelayConfig_init ev (sd_config sd) of Inl e \<Rightarrow> Inl e | Inr _ \<Rightarrow> Inr ContextObject)"
  by (simp add: execute_step_def DelayConnector_execute_def split: sum.splits)




text \<open>
  Claim C10. Whatever storages the engine was constructed with, \<open>get_run_status\<close> and
  \<open>list_workflow_runs\<close> fail with \<open>AttributeError\<close>: the attribute \<open>storage\<close> they read
  is neither set by the constructor nor a member of the class.
\<close>

theorem run_lookups_always_fail:
  "get_run_status (WorkflowEngine_init ws rs) rid
     = Inl (AttributeError (squote ''WorkflowEngine'' @ '' object has no attribute '' @ squote ''storage''))
   \<and> list_workflow_runs listing (WorkflowEngine_init ws rs) wid
     = Inl (AttributeError (squote ''WorkflowEngine'' @ '' object has no attribute '' @ squote ''storage''))"
  by (simp add: get_run_status_def list_workflow_runs_def WorkflowEngine_getattr_def
      WorkflowEngine_class_attrs_def)

theorem run_lookups_always_fail_witness:
  "get_run_status sample_engine ''run-1''
     = Inl (AttributeError (squote ''WorkflowEngine'' @ '' object has no attribute '' @ squote ''storage''))
   \<and> list_workflow_runs [''run-1''] sample_engine ''invoice_reminder''
     = Inl (AttributeError (squote ''WorkflowEngine'' @ '' object has no attribute '' @ squote ''storage''))"
  using run_lookups_always_fail [of "snd (storage_create for_workflows sample_workflow)" for_runs
      "''run-1''" "[''run-1'']" "''invoice_reminder''"]
  by (simp add: sample_engine_def)


lemma map_add_upd_self: "m ++ m(k \<mapsto> v) = m(k \<mapsto> v)"
  by (rule ext) (simp add: map_add_def split: option.splits)

lemma WebhookConnector_execute_Inr:
  "\<exists>d. WebhookConnector_execute ev k conn c = Inr (DictObject d)
     \<and> (case webhook_request ev k conn c of
           Inl e \<Rightarrow> d = c(''error'' \<mapsto> JStr (str_e e))
         | Inr response \<Rightarrow> d = c(''response'' \<mapsto> response))"
  by (simp add: WebhookConnector_execute_def split: sum.splits)

lemma execute_step_extends:
  "execute_step ev cmap k sd c = Inr output \<Longrightarrow> c ++ deref c output = deref c output"
  by (auto simp: execute_step_def DelayConnector_execute_def WebhookConnector_execute_def
      map_add_self map_add_upd_self split: option.splits connector_cls.splits sum.splits)

lemma output_or_empty_value:
  "deref c (output_or_empty c (Some output)) = deref c output"
  by (simp add: output_or_empty_def)

text \<open>
  Claim C5, as amended. For every successfully executed step, the context the
  connector returned is merged into the run's context by shallow key overwrite, the
  Step Run is marked \<open>completed\<close> with its \<open>end_time\<close>, and its recorded output is that
  returned context, which is the whole accumulated context of the run after the merge
  (the Delay connector returns the context object itself, the Webhook connector a copy
  with one key added), not only the pairs the step added or changed; then
  \<open>current_step_id\<close> becomes the step's \<open>next_step_id\<close>.
\<close>

theorem step_output_is_returned_context:
  "try_step ev cmap k sd run = Inr run2 \<and> run_steps run (sd_id sd) = Some sr \<longrightarrow>
     (\<exists>output. execute_step ev cmap k sd (run_context run) = Inr output
        \<and> run_context run2 = run_context run ++ deref (run_context run) output
        \<and> run_context run2 = deref (run_context run) output
        \<and> (\<exists>sr2. run_steps run2 (sd_id sd) = Some sr2
              \<and> sr_status sr2 = StepStatus.COMPLETED
              \<and> sr_end_time sr2 = Some (clock ev k)
              \<and> map_option (deref (run_context run2)) (sr_output sr2) = Some (run_context run2))
        \<and> run_current_step_id run2 = sd_next_step_id sd)"
proof
  assume h: "try_step ev cmap k sd run = Inr run2 \<and> run_steps run (sd_id sd) = Some sr"
  from try_step_Inr [of ev cmap k sd run run2] h obtain out where
    ex: "execute_step ev cmap k sd (run_context run) = Inr out"
    and ctx2: "run_context run2 = run_context run ++ deref (run_context run) out"
    and nxt: "run_current_step_id run2 = sd_next_step_id sd"
    and steps2: "run_steps run2 = (run_steps run)(sd_id sd \<mapsto>
              sr\<lparr>sr_status := StepStatus.COMPLETED, sr_end_time := Some (clock ev k),
                 sr_output := Some (output_or_empty (run_context run2) (Some out))\<rparr>)"
    by auto
  have whole: "run_context run2 = deref (run_context run) out"
    using ctx2 execute_step_extends [OF ex] by simp
  have outv: "deref (run_context run2) (output_or_empty (run_context run2) (Some out)) = run_context run2"
    unfolding output_or_empty_value using whole by (cases out) simp_all
  have "\<exists>sr2. run_steps run2 (sd_id sd) = Some sr2
              \<and> sr_status sr2 = StepStatus.COMPLETED
              \<and> sr_end_time sr2 = Some (clock ev k)
              \<and> map_option (deref (run_context run2)) (sr_output sr2) = Some (run_context run2)"
    by (simp add: steps2 outv)
  with ex ctx2 whole nxt show "\<exists>output. execute_step ev cmap k sd (run_context run) = Inr output
        \<and> run_context run2 = run_context run ++ deref (run_context run) output
        \<and> run_context run2 = deref (run_context run) output
        \<and> (\<exists>sr2. run_steps run2 (sd_id sd) = Some sr2
              \<and> sr_status sr2 = StepStatus.COMPLETED
              \<and> sr_end_time sr2 = Some (clock ev k)
              \<and> map_option (deref (run_context run2)) (sr_output sr2) = Some (run_context run2))
        \<and> run_current_step_id run2 = sd_next_step_id sd"
    by blast
qed

lemma sample_delay_step:
  "try_step example_env CONNECTOR_MAP 0
     \<lparr>sd_id = ''delay_step'', sd_type = DELAY, sd_config = [(''seconds'', JInt 2)],
      sd_next_step_id = Some ''send_reminder''\<rparr>
     (start_step 0 ''delay_step''
        (started_run sample_workflow ''run-1'' 0 ''invoice_reminder'' (Some sample_context)))
   = Inr ((complete_step 0 ''delay_step'' (Some ContextObject)
            (start_step 0 ''delay_step''
               (started_run sample_workflow ''run-1'' 0 ''invoice_reminder'' (Some sample_context))))
          \<lparr>run_current_step_id := Some ''send_reminder''\<rparr>)"
proof -
  have cfg: "DelayConfig_init example_env [(''seconds'', JInt 2)] = Inr \<lparr>dc_type = ''delay'', dc_seconds = 2\<rparr>"
    by (simp add: DelayConfig_init_def type_field_def seconds_field_def pyd_int_def extra_errors_def errors_of_def)
  have self: "sample_context ''self'' = None" by (simp add: sample_context_def)
  have clk: "clock example_env 0 = 0" by (simp add: example_env_def)
  show ?thesis
    using try_step_delay [of CONNECTOR_MAP "\<lparr>sd_id = ''delay_step'', sd_type = DELAY,
        sd_config = [(''seconds'', JInt 2)], sd_next_step_id = Some ''send_reminder''\<rparr>" example_env
        "\<lparr>dc_type = ''delay'', dc_seconds = 2\<rparr>"
        "start_step 0 ''delay_step'' (started_run sample_workflow ''run-1'' 0 ''invoice_reminder'' (Some sample_context))" 0]
    by (simp add: CONNECTOR_MAP_def cfg run_context_start_step started_run_fields context_or_empty_def self clk)
qed

theorem step_output_is_returned_context_witness:
  "\<exists>run2 sr2. try_step example_env CONNECTOR_MAP 0
     \<lparr>sd_id = ''delay_step'', sd_type = DELAY, sd_config = [(''seconds'', JInt 2)],
      sd_next_step_id = Some ''send_reminder''\<rparr>
     (start_step 0 ''delay_step''
        (started_run sample_workflow ''run-1'' 0 ''invoice_reminder'' (Some sample_context))) = Inr run2
     \<and> run_context run2 = sample_context
     \<and> run_steps run2 ''delay_step'' = Some sr2
     \<and> sr_status sr2 = StepStatus.COMPLETED
     \<and> map_option (deref (run_context run2)) (sr_output sr2) = Some sample_context
     \<and> run_current_step_id run2 = Some ''send_reminder''"
proof -
  let ?sd = "\<lparr>sd_id = ''delay_step'', sd_type = DELAY, sd_config = [(''seconds'', JInt 2)],
      sd_next_step_id = Some ''send_reminder''\<rparr>"
  let ?run = "start_step 0 ''delay_step''
        (started_run sample_workflow ''run-1'' 0 ''invoice_reminder'' (Some sample_context))"
  let ?run2 = "(complete_step 0 ''delay_step'' (Some ContextObject) ?run)\<lparr>run_current_step_id := Some ''send_reminder''\<rparr>"
  obtain sr where sr: "run_steps ?run ''delay_step'' = Some sr"
    by (simp add: run_steps_start_step)
  have c2: "run_context ?run2 = sample_context"
    by (simp add: complete_step_def run_context_start_step started_run_fields context_or_empty_def
        split: option.splits)
  from step_output_is_returned_context [of example_env CONNECTOR_MAP 0 ?sd ?run ?run2 sr]
    sample_delay_step sr c2
  show ?thesis by (simp del: fun_upd_apply) blast
qed

text \<open>
  Claim C5 as stated fails for the Delay step of the sample workflow: the step adds
  and changes nothing (the context after it is the context before it), yet its
  recorded output is the whole context, with the trigger's \<open>invoice_id\<close> in it.
\<close>

theorem delay_output_counterexample:
  "try_step example_env CONNECTOR_MAP 0
     \<lparr>sd_id = ''delay_step'', sd_type = DELAY, sd_config = [(''seconds'', JInt 2)],
      sd_next_step_id = Some ''send_reminder''\<rparr>
     (start_step 0 ''delay_step''
        (started_run sample_workflow ''run-1'' 0 ''invoice_reminder'' (Some sample_context)))
   = Inr ((complete_step 0 ''delay_step'' (Some ContextObject)
            (start_step 0 ''delay_step''
               (started_run sample_workflow ''run-1'' 0 ''invoice_reminder'' (Some sample_context))))
          \<lparr>run_current_step_id := Some ''send_reminder''\<rparr>)
   \<and> run_context (complete_step 0 ''delay_step'' (Some ContextObject)
            (start_step 0 ''delay_step''
               (started_run sample_workflow ''run-1'' 0 ''invoice_reminder'' (Some sample_context))))
      = run_context (start_step 0 ''delay_step''
               (started_run sample_workflow ''run-1'' 0 ''invoice_reminder'' (Some sample_context)))
   \<and> map_option (\<lambda>sr. map_option (\<lambda>r. deref sample_context r ''invoice_id'') (sr_output sr))
        (run_steps (WorkflowRun_dump_load (complete_step 0 ''delay_step'' (Some ContextObject)
            (start_step 0 ''delay_step''
               (started_run sample_workflow ''run-1'' 0 ''invoice_reminder'' (Some sample_context)))))
          ''delay_step'')
      = Some (Some (Some (JStr ''INV-12345'')))"
proof -
  let ?run = "start_step 0 ''delay_step''
        (started_run sample_workflow ''run-1'' 0 ''invoice_reminder'' (Some sample_context))"
  obtain sr where sr: "run_steps ?run ''delay_step'' = Some sr"
    by (simp add: run_steps_start_step)
  have c: "run_context ?run = sample_context"
    by (simp add: run_context_start_step started_run_fields context_or_empty_def)
  have ne: "sample_context \<noteq> Map.empty"
    by (simp add: sample_context_def)
  have inv: "sample_context ''invoice_id'' = Some (JStr ''INV-12345'')"
    by (simp add: sample_context_def)
  show ?thesis
    using sample_delay_step
    by (simp add: complete_step_def sr c dump_load_steps output_or_empty_def ne inv)
qed


lemma execute_step_webhook:
  "map_of cmap (sd_type sd) = Some Webhook_cls \<Longrightarrow>
   execute_step ev cmap k sd c =
     (case WebhookConfig_init ev (sd_config sd) of
        Inl e \<Rightarrow> Inl e
      | Inr config \<Rightarrow> WebhookConnector_execute ev k (WebhookConnector_init config) c)"
  by (simp add: execute_step_def)

lemma config_replaced_isl:
  "isl (WorkflowDefinition_init (w\<lparr>wf_steps := map (\<lambda>s. s\<lparr>sd_config := cfg s\<rparr>) (wf_steps w)\<rparr>))
     = isl (WorkflowDefinition_init w)"
  unfolding WorkflowDefinition_init_isl validate_entry_point_isl by (simp add: o_def)

text \<open>
  Claim C9. Executing a step whose type has no entry in the dispatch table fails with
  the \<open>ValueError\<close> "Unsupported step type". For a step whose type is in the table, a
  raw config that its configuration class rejects makes the execution of the step
  raise that validation error; reached in a run, it ends the run through the failure
  path with the step and the run marked \<open>failed\<close>. Construction of the workflow
  definition never looks at the configs.
\<close>

theorem dispatch_and_lazy_config_validation:
  "(map_of cmap (sd_type sd) = None \<longrightarrow>
      execute_step ev cmap k sd c = Inl (ValueError (''Unsupported step type: '' @ StepType_text (sd_type sd))))
   \<and> (map_of cmap (sd_type sd) = Some Delay_cls \<and> DelayConfig_init ev (sd_config sd) = Inl e \<longrightarrow>
        execute_step ev cmap k sd c = Inl e \<and> (\<exists>m. e = ValidationError m))
   \<and> (map_of cmap (sd_type sd) = Some Webhook_cls \<and> WebhookConfig_init ev (sd_config sd) = Inl e \<longrightarrow>
        execute_step ev cmap k sd c = Inl e \<and> (\<exists>m. e = ValidationError m))
   \<and> (model_cls rs = WorkflowRun_class \<and> run_id run \<noteq> [] \<and> files rs (run_id run) \<noteq> None
        \<and> run_current_step_id run = Some sid \<and> sid \<noteq> []
        \<and> find (\<lambda>s. sd_id s = sid) (wf_steps workflow) = Some sd
        \<and> execute_step ev cmap k sd (run_context run) = Inl e
       \<longrightarrow> (\<exists>rs' fin sr. step_loop ev cmap workflow (Suc fuel) k run rs = Some (StepFailed sid (str_e e), rs')
              \<and> files rs' (run_id run) = Some fin
              \<and> run_status fin = RunStatus.FAILED
              \<and> run_error fin = Some (''Step '' @ sid @ '' failed: '' @ str_e e)
              \<and> run_steps fin sid = Some sr \<and> sr_status sr = StepStatus.FAILED
              \<and> sr_error sr = Some (str_e e)))
   \<and> (isl (WorkflowDefinition_init (w\<lparr>wf_steps := map (\<lambda>s. s\<lparr>sd_config := cfg s\<rparr>) (wf_steps w)\<rparr>))
        = isl (WorkflowDefinition_init w))"
proof (intro conjI impI)
  assume "map_of cmap (sd_type sd) = None"
  then show "execute_step ev cmap k sd c = Inl (ValueError (''Unsupported step type: '' @ StepType_text (sd_type sd)))"
    by (simp add: execute_step_def)
next
  assume h: "map_of cmap (sd_type sd) = Some Delay_cls \<and> DelayConfig_init ev (sd_config sd) = Inl e"
  then show "execute_step ev cmap k sd c = Inl e" by (simp add: execute_step_delay)
  from h show "\<exists>m. e = ValidationError m" using DelayConfig_init_Inl by blast
next
  assume h: "map_of cmap (sd_type sd) = Some Webhook_cls \<and> WebhookConfig_init ev (sd_config sd) = Inl e"
  then show "execute_step ev cmap k sd c = Inl e" by (simp add: execute_step_webhook)
  from h show "\<exists>m. e = ValidationError m"
    by (auto simp: WebhookConfig_init_def split: sum.splits list.splits)
next
  assume h: "model_cls rs = WorkflowRun_class \<and> run_id run \<noteq> [] \<and> files rs (run_id run) \<noteq> None
        \<and> run_current_step_id run = Some sid \<and> sid \<noteq> []
        \<and> find (\<lambda>s. sd_id s = sid) (wf_steps workflow) = Some sd
        \<and> execute_step ev cmap k sd (run_context run) = Inl e"
  let ?run1 = "start_step (clock ev k) sid run"
  let ?fin = "mark_failed (clock ev k) sid e ?run1"
  let ?rs' = "rs\<lparr>files := (files rs)(run_id run \<mapsto> WorkflowRun_dump_load ?fin)\<rparr>"
  from h have t: "try_step ev cmap k sd ?run1 = Inl e"
    by (intro try_step_execute_Inl) (simp add: run_context_start_step)
  from h t have loop: "step_loop ev cmap workflow (Suc fuel) k run rs = Some (StepFailed sid (str_e e), ?rs')"
    by (intro step_loop_failure) simp_all
  obtain sr1 where sr1: "run_steps ?run1 sid = Some sr1"
    by (simp add: run_steps_start_step)
  have "files ?rs' (run_id run) = Some (WorkflowRun_dump_load ?fin)
      \<and> run_status (WorkflowRun_dump_load ?fin) = RunStatus.FAILED
      \<and> run_error (WorkflowRun_dump_load ?fin) = Some (''Step '' @ sid @ '' failed: '' @ str_e e)
      \<and> (\<exists>sr. run_steps (WorkflowRun_dump_load ?fin) sid = Some sr \<and> sr_status sr = StepStatus.FAILED
             \<and> sr_error sr = Some (str_e e))"
    by (simp add: dump_load_fields mark_failed_fields dump_load_steps run_steps_mark_failed [OF sr1])
  with loop show "\<exists>rs' fin sr. step_loop ev cmap workflow (Suc fuel) k run rs = Some (StepFailed sid (str_e e), rs')
              \<and> files rs' (run_id run) = Some fin
              \<and> run_status fin = RunStatus.FAILED
              \<and> run_error fin = Some (''Step '' @ sid @ '' failed: '' @ str_e e)
              \<and> run_steps fin sid = Some sr \<and> sr_status sr = StepStatus.FAILED
              \<and> sr_error sr = Some (str_e e)"
    by blast
next
  show "isl (WorkflowDefinition_init (w\<lparr>wf_steps := map (\<lambda>s. s\<lparr>sd_config := cfg s\<rparr>) (wf_steps w)\<rparr>))
        = isl (WorkflowDefinition_init w)"
    by (rule config_replaced_isl)
qed

theorem dispatch_and_lazy_config_validation_witness:
  "execute_step example_env [(DELAY, Delay_cls)] 0
      \<lparr>sd_id = ''send'', sd_type = WEBHOOK, sd_config = [(''url'', JStr ''http://localhost:8001/notify'')],
       sd_next_step_id = None\<rparr> Map.empty
     = Inl (ValueError ''Unsupported step type: StepType.WEBHOOK'')
   \<and> execute_step example_env CONNECTOR_MAP 0
      \<lparr>sd_id = ''B'', sd_type = DELAY, sd_config = [(''seconds'', JInt 0)], sd_next_step_id = Some ''A''\<rparr> Map.empty
     = Inl (ValidationError (pydantic_text ''DelayConfig'' [(''seconds'', ''Input should be greater than 0'')]))
   \<and> WorkflowDefinition_init cyclic_workflow = Inr cyclic_workflow"
proof -
  have a: "execute_step example_env [(DELAY, Delay_cls)] 0
      \<lparr>sd_id = ''send'', sd_type = WEBHOOK, sd_config = [(''url'', JStr ''http://localhost:8001/notify'')],
       sd_next_step_id = None\<rparr> Map.empty
     = Inl (ValueError ''Unsupported step type: StepType.WEBHOOK'')"
    using dispatch_and_lazy_config_validation [of "[(DELAY, Delay_cls)]"
        "\<lparr>sd_id = ''send'', sd_type = WEBHOOK, sd_config = [(''url'', JStr ''http://localhost:8001/notify'')],
       sd_next_step_id = None\<rparr>" example_env 0 Map.empty]
    by (simp add: StepType_text_def)
  have b: "execute_step example_env CONNECTOR_MAP 0
      \<lparr>sd_id = ''B'', sd_type = DELAY, sd_config = [(''seconds'', JInt 0)], sd_next_step_id = Some ''A''\<rparr> Map.empty
     = Inl (ValidationError (pydantic_text ''DelayConfig'' [(''seconds'', ''Input should be greater than 0'')]))"
    using dispatch_and_lazy_config_validation [of CONNECTOR_MAP
        "\<lparr>sd_id = ''B'', sd_type = DELAY, sd_config = [(''seconds'', JInt 0)], sd_next_step_id = Some ''A''\<rparr>"
        example_env 0 Map.empty
        "ValidationError (pydantic_text ''DelayConfig'' [(''seconds'', ''Input should be greater than 0'')])"]
    by (simp add: CONNECTOR_MAP_def delay_config_zero del: pydantic_text_def)
  have c: "WorkflowDefinition_init cyclic_workflow = Inr cyclic_workflow"
    by (simp add: WorkflowDefinition_init_def validate_steps_iff validate_entry_point_def cyclic_workflow_def)
  from a b c show ?thesis by blast
qed


lemma try_step_webhook_self:
  assumes "map_of cmap (sd_type sd) = Some Webhook_cls" "WebhookConfig_init ev (sd_config sd) = Inr config"
    and "run_context run ''self'' \<noteq> None"
  shows "try_step ev cmap k sd run =
     Inl (TypeError (''WorkflowRun.update_context() got multiple values for argument '' @ squote ''self''))"
proof -
  obtain d where d: "WebhookConnector_execute ev k (WebhookConnector_init config) (run_context run) = Inr (DictObject d)"
    and dself: "d ''self'' = run_context run ''self''"
    by (cases "webhook_request ev k (WebhookConnector_init config) (run_context run)")
      (auto simp: WebhookConnector_execute_def)
  from dself assms(3) have ne: "d \<noteq> Map.empty" by auto
  show ?thesis
    using assms d dself ne
    by (simp add: try_step_def execute_step_webhook update_context_def)
qed

lemma try_step_webhook_completes:
  assumes "map_of cmap (sd_type sd) = Some Webhook_cls" "WebhookConfig_init ev (sd_config sd) = Inr config"
    and "run_context run ''self'' = None" "run_steps run (sd_id sd) = Some sr"
  shows "\<exists>run2 d sr2. try_step ev cmap k sd run = Inr run2
      \<and> WebhookConnector_execute ev k (WebhookConnector_init config) (run_context run) = Inr (DictObject d)
      \<and> (case webhook_request ev k (WebhookConnector_init config) (run_context run) of
            Inl e \<Rightarrow> d = (run_context run)(''error'' \<mapsto> JStr (str_e e))
          | Inr response \<Rightarrow> d = (run_context run)(''response'' \<mapsto> response))
      \<and> run_context run2 = d
      \<and> run_steps run2 (sd_id sd) = Some sr2 \<and> sr_status sr2 = StepStatus.COMPLETED
      \<and> sr_output sr2 = Some (DictObject d)
      \<and> run_current_step_id run2 = sd_next_step_id sd"
proof -
  from WebhookConnector_execute_Inr [of ev k "WebhookConnector_init config" "run_context run"]
  obtain d where d: "WebhookConnector_execute ev k (WebhookConnector_init config) (run_context run) = Inr (DictObject d)"
    and dv: "case webhook_request ev k (WebhookConnector_init config) (run_context run) of
            Inl e \<Rightarrow> d = (run_context run)(''error'' \<mapsto> JStr (str_e e))
          | Inr response \<Rightarrow> d = (run_context run)(''response'' \<mapsto> response)"
    by blast
  from dv have ne: "d \<noteq> Map.empty" and dself: "d ''self'' = run_context run ''self''"
    and ext: "run_context run ++ d = d"
    by (auto simp: map_add_self split: sum.splits)
  have "try_step ev cmap k sd run =
      Inr ((complete_step (clock ev k) (sd_id sd) (Some (DictObject d)) (run\<lparr>run_context := d\<rparr>))
             \<lparr>run_current_step_id := sd_next_step_id sd\<rparr>)"
    using assms d ne dself ext
    by (simp add: try_step_def execute_step_webhook update_context_def)
  with d dv ne assms(4) show ?thesis
    by (simp add: complete_step_def output_or_empty_def)
qed

lemma notify_engine_simps:
  "files (workflow_storage notify_engine) ''notify'' = Some notify_workflow"
  "files (run_storage notify_engine) k = None"
  "model_cls (run_storage notify_engine) = WorkflowRun_class"
  by (simp_all add: notify_engine_def WorkflowEngine_init_def storage_create_def for_workflows_def
      for_runs_def WorkflowDefinition_class_def Let_def notify_workflow_def)

lemma notify_config:
  "WebhookConfig_init example_env [(''url'', JStr ''http://localhost:8001/notify'')] =
     Inr \<lparr>wc_type = ''webhook'', wc_url = ''http://localhost:8001/notify'', wc_method = ''POST'',
          wc_headers = [], wc_body = None\<rparr>"
  by (simp add: WebhookConfig_init_def type_field_def url_field_def method_field_def headers_field_def
      body_field_def extra_errors_def example_env_def)

lemma notify_execute:
  "WebhookConnector_execute example_env k
     (WebhookConnector_init \<lparr>wc_type = ''webhook'', wc_url = ''http://localhost:8001/notify'',
         wc_method = ''POST'', wc_headers = [], wc_body = None\<rparr>) c
   = Inr (DictObject (c(''error'' \<mapsto> JStr ''All connection attempts failed'')))"
  by (simp add: WebhookConnector_execute_def webhook_request_def WebhookConnector_init_def
      render_headers_def example_env_def)

text \<open>
  Claim C3 at a context that has the key \<open>self\<close>. The Webhook connector behaves as
  the claim says: the call fails, \<open>execute\<close> does not raise and returns the context with
  an \<open>error\<close> key. But the engine then merges that result by unpacking it into keyword
  arguments, which raises \<open>TypeError\<close>; the step and the run end \<open>failed\<close>, not
  \<open>completed\<close>.
\<close>

theorem webhook_self_key_failure:
  "WebhookConnector_execute example_env 0
     (WebhookConnector_init \<lparr>wc_type = ''webhook'', wc_url = ''http://localhost:8001/notify'',
         wc_method = ''POST'', wc_headers = [], wc_body = None\<rparr>) [''self'' \<mapsto> JInt 1]
     = Inr (DictObject [''self'' \<mapsto> JInt 1, ''error'' \<mapsto> JStr ''All connection attempts failed''])
   \<and> map_option fst (execute_workflow example_env CONNECTOR_MAP
        (snd (start_workflow notify_engine ''run-1'' 0 ''notify'' (Some [''self'' \<mapsto> JInt 1]))) 1 ''run-1'')
     = Some (RunStepFailed ''send''
          (''WorkflowRun.update_context() got multiple values for argument '' @ squote ''self''))"
proof -
  let ?c = "[''self'' \<mapsto> JInt 1]"
  let ?S = "\<lparr>sd_id = ''send'', sd_type = WEBHOOK,
          sd_config = [(''url'', JStr ''http://localhost:8001/notify'')], sd_next_step_id = None\<rparr>"
  let ?e = "TypeError (''WorkflowRun.update_context() got multiple values for argument '' @ squote ''self'')"
  let ?run0 = "started_run notify_workflow ''run-1'' 0 ''notify'' (Some ?c)"
  let ?rs1 = "(run_storage notify_engine)\<lparr>files := (files (run_storage notify_engine))(''run-1'' \<mapsto> ?run0)\<rparr>"
  let ?eng1 = "notify_engine\<lparr>run_storage := ?rs1\<rparr>"
  have start: "start_workflow notify_engine ''run-1'' 0 ''notify'' (Some ?c) = (Inr ?run0, ?eng1)"
    by (rule start_workflow_success) (simp_all add: notify_engine_simps)
  let ?run1 = "start_step (clock example_env 0) ''send'' ?run0"
  have t: "try_step example_env CONNECTOR_MAP 0 ?S ?run1 = Inl ?e"
    by (rule try_step_webhook_self [where config = "\<lparr>wc_type = ''webhook'',
          wc_url = ''http://localhost:8001/notify'', wc_method = ''POST'', wc_headers = [], wc_body = None\<rparr>"])
      (simp_all add: CONNECTOR_MAP_def notify_config run_context_start_step started_run_fields
        context_or_empty_def)
  let ?rs2 = "?rs1\<lparr>files := (files ?rs1)(run_id ?run0 \<mapsto>
               WorkflowRun_dump_load (mark_failed (clock example_env 0) ''send'' ?e ?run1))\<rparr>"
  have l: "step_loop example_env CONNECTOR_MAP notify_workflow (Suc 0) 0 ?run0 ?rs1 =
      Some (StepFailed ''send'' (str_e ?e), ?rs2)"
    by (rule step_loop_failure [OF _ _ _ _ _ _ t])
      (simp_all add: notify_engine_simps started_run_fields notify_workflow_def)
  have ex: "execute_workflow example_env CONNECTOR_MAP ?eng1 1 ''run-1'' =
      Some (RunStepFailed ''send'' (str_e ?e), ?eng1\<lparr>run_storage := ?rs2\<rparr>)"
    using execute_workflow_step_failed [of ?eng1 "''run-1''" ?run0 notify_workflow example_env CONNECTOR_MAP
        "Suc 0" "''send''" "str_e ?e" ?rs2] l
    by (simp add: started_run_fields notify_engine_simps)
  have a: "WebhookConnector_execute example_env 0
     (WebhookConnector_init \<lparr>wc_type = ''webhook'', wc_url = ''http://localhost:8001/notify'',
         wc_method = ''POST'', wc_headers = [], wc_body = None\<rparr>) ?c
     = Inr (DictObject (?c(''error'' \<mapsto> JStr ''All connection attempts failed'')))"
    by (rule notify_execute)
  from a ex show ?thesis unfolding start snd_conv by simp
qed

















end
